theory Spec2Isabelle
  imports Main
begin

section \<open>JavaScript values and objects\<close>

text \<open>
  Filters, update documents, pipeline stages and the values carried by a condition are
  plain JavaScript values. An object is the list of its own enumerable properties in
  enumeration order; numbers are restricted to integers.
\<close>

datatype jsval =
    JUndefined
  | JNull
  | JBool bool
  | JNum int
  | JStr string
  | JArr "jsval list"
  | JObj "(string \<times> jsval) list"

type_synonym js_object = "(string \<times> jsval) list"

text \<open>\<open>obj[key] = v\<close>: an existing property keeps its place, a new one is appended.\<close>

fun obj_set :: "js_object \<Rightarrow> string \<Rightarrow> jsval \<Rightarrow> js_object" where
  "obj_set [] k v = [(k, v)]"
| "obj_set ((k', v') # kvs) k v =
     (if k' = k then (k, v) # kvs else (k', v') # obj_set kvs k v)"

text \<open>\<open>obj[key]\<close>: \<open>undefined\<close> for a property the object does not have.\<close>

fun obj_get :: "js_object \<Rightarrow> string \<Rightarrow> jsval" where
  "obj_get [] k = JUndefined"
| "obj_get ((k', v') # kvs) k = (if k' = k then v' else obj_get kvs k)"

text \<open>Truthiness, as \<open>!x\<close> and \<open>x ? a : b\<close> read it.\<close>

fun truthy :: "jsval \<Rightarrow> bool" where
  "truthy JUndefined = False"
| "truthy JNull = False"
| "truthy (JBool b) = b"
| "truthy (JNum n) = (n \<noteq> 0)"
| "truthy (JStr s) = (s \<noteq> [])"
| "truthy (JArr xs) = True"
| "truthy (JObj kvs) = True"

section \<open>Condition expressions (\<open>Where\<close>) and \<open>MongoWhereParser\<close>\<close>

text \<open>
  \<open>WhereOperator\<close> is an enumeration of the core library. The eighteen members listed
  first are the keys of \<open>MongoWhereParser.operatorMap\<close>. \<open>OtherOperator n\<close> stands for every
  other value an \<open>operator\<close> field can hold: \<open>n\<close> is what the reverse lookup
  \<open>WhereOperator[operator]\<close> gives for it, \<open>Some name\<close> for a further member of the
  enumeration (such as \<open>isBetween\<close>) and \<open>None\<close> (\<open>undefined\<close>) for a value that is
  no member at all (such as \<open>NaN\<close>).
\<close>

datatype WhereOperator =
    isEq | isNotEq | isLt | isLte | isGt | isGte
  | isInRange | isNotInRange | isIn | isNotIn
  | isTrue | isFalse | is0 | is1 | isNull | isNotNull
  | isEmpty | isNotEmpty
  | OtherOperator "string option"

fun WhereOperator_name :: "WhereOperator \<Rightarrow> string option" where
  "WhereOperator_name isEq = Some ''isEq''"
| "WhereOperator_name isNotEq = Some ''isNotEq''"
| "WhereOperator_name isLt = Some ''isLt''"
| "WhereOperator_name isLte = Some ''isLte''"
| "WhereOperator_name isGt = Some ''isGt''"
| "WhereOperator_name isGte = Some ''isGte''"
| "WhereOperator_name isInRange = Some ''isInRange''"
| "WhereOperator_name isNotInRange = Some ''isNotInRange''"
| "WhereOperator_name isIn = Some ''isIn''"
| "WhereOperator_name isNotIn = Some ''isNotIn''"
| "WhereOperator_name isTrue = Some ''isTrue''"
| "WhereOperator_name isFalse = Some ''isFalse''"
| "WhereOperator_name is0 = Some ''is0''"
| "WhereOperator_name is1 = Some ''is1''"
| "WhereOperator_name isNull = Some ''isNull''"
| "WhereOperator_name isNotNull = Some ''isNotNull''"
| "WhereOperator_name isEmpty = Some ''isEmpty''"
| "WhereOperator_name isNotEmpty = Some ''isNotEmpty''"
| "WhereOperator_name (OtherOperator n) = n"

record WhereClause =
  operator :: WhereOperator
  clause_value :: jsval

text \<open>
  The argument of \<open>parse\<close>: a \<open>Where\<close> instance that holds a raw filter
  (\<open>isRaw\<close>), a \<open>Where\<close> instance that holds a chain of clauses keyed by field, or
  any other object, given by its keys in the order \<open>Object.keys\<close> lists them. The value
  under a key of such an object is an array of further expressions, or \<open>None\<close> for a
  value that is no array.
\<close>

datatype whereExpr =
    RawWhere jsval
  | ChainWhere "(string \<times> WhereClause) list"
  | PlainObject "(string \<times> whereExpr list option) list"

text \<open>The errors of the parser and of the query builders.\<close>

datatype error =
    UnsupportedOperatorError "string option"
  | TypeError
  | InconsistentUpdateParamsError nat nat nat
  | UnknownUpdateMethodError string

text \<open>An entry of \<open>operatorMap\<close> is an operator token or a ready-made clause.\<close>

datatype mongo_operator = Token string | Clause jsval

fun operatorMap :: "WhereOperator \<Rightarrow> mongo_operator option" where
  "operatorMap isEq = Some (Token ''$eq'')"
| "operatorMap isNotEq = Some (Token ''$ne'')"
| "operatorMap isLt = Some (Token ''$lt'')"
| "operatorMap isLte = Some (Token ''$lte'')"
| "operatorMap isGt = Some (Token ''$gt'')"
| "operatorMap isGte = Some (Token ''$gte'')"
| "operatorMap isInRange = Some (Token ''$in'')"
| "operatorMap isNotInRange = Some (Token ''$nin'')"
| "operatorMap isIn = Some (Token ''$in'')"
| "operatorMap isNotIn = Some (Token ''$nin'')"
| "operatorMap isTrue = Some (Token ''$eq'')"
| "operatorMap isFalse = Some (Token ''$eq'')"
| "operatorMap is0 = Some (Token ''$eq'')"
| "operatorMap is1 = Some (Token ''$eq'')"
| "operatorMap isNull = Some (Token ''$eq'')"
| "operatorMap isNotNull = Some (Token ''$ne'')"
| "operatorMap isEmpty = Some (Clause (JObj [(''$or'',
     JArr [JObj [(''$eq'', JStr [])], JObj [(''$eq'', JArr [])], JObj [(''$eq'', JObj [])]])]))"
| "operatorMap isNotEmpty = Some (Clause (JObj [(''$and'',
     JArr [JObj [(''$ne'', JStr [])], JObj [(''$ne'', JArr [])], JObj [(''$ne'', JObj [])]])]))"
| "operatorMap (OtherOperator n) = None"

text \<open>An entry used as a value (\<open>query[key] = mongoOperator\<close>) and as a computed
  property key (\<open>{ [mongoOperator]: v }\<close>).\<close>

fun as_value :: "mongo_operator \<Rightarrow> jsval" where
  "as_value (Token s) = JStr s"
| "as_value (Clause c) = c"

fun as_key :: "mongo_operator \<Rightarrow> string" where
  "as_key (Token s) = s"
| "as_key (Clause c) = ''[object Object]''"

text \<open>The loop \<open>for (const key in chain)\<close> of \<open>parse\<close>, with the filter built so far.\<close>

fun parse_chain :: "(string \<times> WhereClause) list \<Rightarrow> js_object \<Rightarrow> error + js_object" where
  "parse_chain [] query = Inr query"
| "parse_chain ((key, whereClause) # chain) query =
     (case operatorMap (operator whereClause) of
        None \<Rightarrow> Inl (UnsupportedOperatorError (WhereOperator_name (operator whereClause)))
      | Some mongoOperator \<Rightarrow>
          if operator whereClause = isEmpty \<or> operator whereClause = isNotEmpty
          then parse_chain chain (obj_set query key (as_value mongoOperator))
          else
            let query1 = obj_set query key
                  (JObj [(as_key mongoOperator, clause_value whereClause)]);
                query2 = (if operator whereClause = isNull
                          then obj_set query1 key (JObj [(as_key mongoOperator, JNull)])
                          else query1)
            in parse_chain chain query2)"

text \<open>
  \<open>parse\<close> is a static method that hands itself to \<open>Array.prototype.map\<close> as
  \<open>values.map(this.parse)\<close>. Its result therefore depends on what \<open>this\<close> is:
  the class in a call \<open>MongoWhereParser.parse(where)\<close>, \<open>undefined\<close> in the calls
  that \<open>map\<close> makes, where reading \<open>this.parse\<close> raises a \<open>TypeError\<close>.
\<close>

datatype this_binding = ThisClass | ThisUndefined

fun parse :: "this_binding \<Rightarrow> whereExpr \<Rightarrow> error + jsval"
  and map_parse :: "whereExpr list \<Rightarrow> error + jsval list" where
  "parse this (RawWhere raw) = Inr raw"
| "parse this (ChainWhere chain) =
     (case parse_chain chain [] of Inl e \<Rightarrow> Inl e | Inr query \<Rightarrow> Inr (JObj query))"
| "parse this (PlainObject []) = Inl (UnsupportedOperatorError None)"
| "parse this (PlainObject ((first_key, values) # others)) =
     (if first_key \<noteq> ''and'' \<and> first_key \<noteq> ''or''
      then Inl (UnsupportedOperatorError (Some first_key))
      else (case values of
        None \<Rightarrow> Inl TypeError
      | Some operands \<Rightarrow>
          (if this = ThisUndefined then Inl TypeError
           else (case map_parse operands of
             Inl e \<Rightarrow> Inl e
           | Inr filters \<Rightarrow> Inr (JObj [(''$'' @ first_key, JArr filters)])))))"
| "map_parse [] = Inr []"
| "map_parse (w # ws) =
     (case parse ThisUndefined w of
        Inl e \<Rightarrow> Inl e
      | Inr f \<Rightarrow> (case map_parse ws of Inl e \<Rightarrow> Inl e | Inr fs \<Rightarrow> Inr (f # fs)))"


text \<open>The expressions that are instances of \<open>Where\<close>.\<close>

fun is_where_instance :: "whereExpr \<Rightarrow> bool" where
  "is_where_instance (RawWhere raw) = True"
| "is_where_instance (ChainWhere chain) = True"
| "is_where_instance (PlainObject kvs) = False"

abbreviation leaf :: "string \<Rightarrow> WhereOperator \<Rightarrow> jsval \<Rightarrow> whereExpr" where
  "leaf field op v \<equiv> ChainWhere [(field, \<lparr>operator = op, clause_value = v\<rparr>)]"

section \<open>Query builders\<close>

datatype UpdateMethod = UpdateOne | UpdateMany | UnknownMethod string

text \<open>
  What \<open>update\<close> of the collection source accepts and \<open>buildUpdateQuery\<close> returns: the
  parameters of one update command, or an array of bulk-write operations.
\<close>

datatype update_query =
    UpdateParams (filter_q: jsval) (update_q: jsval) (options_q: jsval)
      (method_q: "UpdateMethod option")
  | BulkOperations "js_object list"

fun first_unknown_method :: "UpdateMethod list \<Rightarrow> string option" where
  "first_unknown_method [] = None"
| "first_unknown_method (UnknownMethod m # ms) = Some m"
| "first_unknown_method (m # ms) = first_unknown_method ms"

text \<open>One bulk-write document: \<open>upsert\<close> only under \<open>updateOne\<close>.\<close>

definition bulk_document :: "jsval \<Rightarrow> jsval \<Rightarrow> UpdateMethod \<Rightarrow> js_object" where
  "bulk_document u filter_doc m =
     (if m = UpdateOne
      then [(''updateOne'', JObj [(''filter'', filter_doc),
              (''update'', JObj [(''$set'', u)]), (''upsert'', JBool True)])]
      else [(''updateMany'', JObj [(''filter'', filter_doc),
              (''update'', JObj [(''$set'', u)])])])"

fun bulk_documents ::
  "jsval list \<Rightarrow> whereExpr list \<Rightarrow> UpdateMethod list \<Rightarrow> error + js_object list" where
  "bulk_documents (u # us) (w # ws) (m # ms) =
     (case parse ThisClass w of
        Inl e \<Rightarrow> Inl e
      | Inr filter_doc \<Rightarrow>
          (case m of
             UnknownMethod name \<Rightarrow> Inl (UnknownUpdateMethodError name)
           | _ \<Rightarrow>
               (case bulk_documents us ws ms of
                  Inl e \<Rightarrow> Inl e
                | Inr docs \<Rightarrow> Inr (bulk_document u filter_doc m # docs))))"
| "bulk_documents _ _ _ = Inr []"

text \<open>
  Modelled from the spec: \<open>buildUpdateQuery\<close> of \<open>MongoQueryBuilders\<close>
  (\<open>mongo.query-builders.ts\<close> is not among the sources, only its unit test is). The three
  lengths are compared first, then every method is checked, then one command object is
  built for a single triple and one bulk document per triple otherwise. The command of
  an \<open>UpdateMany\<close> triple carries no options (\<open>undefined\<close>), as the unit test has it.
\<close>

definition buildUpdateQuery ::
  "jsval list \<Rightarrow> whereExpr list \<Rightarrow> UpdateMethod list \<Rightarrow> error + update_query" where
  "buildUpdateQuery updates wheres methods =
     (if \<not> (length updates = length wheres \<and> length updates = length methods)
      then Inl (InconsistentUpdateParamsError (length updates) (length wheres) (length methods))
      else (case first_unknown_method methods of
        Some name \<Rightarrow> Inl (UnknownUpdateMethodError name)
      | None \<Rightarrow>
          (case (updates, wheres, methods) of
             ([u], [w], [m]) \<Rightarrow>
               (case parse ThisClass w of
                  Inl e \<Rightarrow> Inl e
                | Inr filter_doc \<Rightarrow>
                    Inr (UpdateParams filter_doc (JObj [(''$set'', u)])
                          (if m = UpdateOne then JObj [(''upsert'', JBool True)] else JUndefined)
                          (Some m)))
           | _ \<Rightarrow>
               (case bulk_documents updates wheres methods of
                  Inl e \<Rightarrow> Inl e
                | Inr docs \<Rightarrow> Inr (BulkOperations docs)))))"

record AggregationParams =
  groupBy :: "string list"
  filterBy :: "whereExpr option"
  sort_p :: "jsval option"
  sum_p :: "string option"
  average_p :: "string option"
  min_p :: "string option"
  max_p :: "string option"
  count_p :: bool
  where_p :: "whereExpr option"

text \<open>\<open>pipeline.push({ $match: parse(where) })\<close> for a condition that is present.\<close>

definition push_match :: "whereExpr option \<Rightarrow> jsval list \<Rightarrow> error + jsval list" where
  "push_match cond pipeline =
     (case cond of
        None \<Rightarrow> Inr pipeline
      | Some w \<Rightarrow>
          (case parse ThisClass w of
             Inl e \<Rightarrow> Inl e
           | Inr filter_doc \<Rightarrow> Inr (pipeline @ [JObj [(''$match'', filter_doc)]])))"

text \<open>One accumulator of the \<open>$group\<close> stage, set only when the aggregate is requested.\<close>

definition set_accumulator ::
  "string \<Rightarrow> string \<Rightarrow> string option \<Rightarrow> js_object \<Rightarrow> js_object" where
  "set_accumulator name token field stage =
     (case field of
        None \<Rightarrow> stage
      | Some f \<Rightarrow> obj_set stage name (JObj [(token, JStr (''$'' @ f))]))"

definition group_id :: "string list \<Rightarrow> js_object" where
  "group_id keys = foldl (\<lambda>ids f. obj_set ids f (JStr (''$'' @ f))) [] keys"

definition group_requested :: "AggregationParams \<Rightarrow> bool" where
  "group_requested p \<longleftrightarrow>
     groupBy p \<noteq> [] \<or> sum_p p \<noteq> None \<or> average_p p \<noteq> None \<or> min_p p \<noteq> None
       \<or> max_p p \<noteq> None \<or> count_p p"

definition group_stage :: "AggregationParams \<Rightarrow> jsval" where
  "group_stage p =
     (let g0 = [(''_id'', JObj (group_id (groupBy p)))];
          g1 = set_accumulator ''totalSum'' ''$sum'' (sum_p p) g0;
          g2 = set_accumulator ''average'' ''$avg'' (average_p p) g1;
          g3 = set_accumulator ''min'' ''$min'' (min_p p) g2;
          g4 = set_accumulator ''max'' ''$max'' (max_p p) g3;
          g5 = (if count_p p then obj_set g4 ''count'' (JObj [(''$sum'', JNum 1)]) else g4)
      in JObj [(''$group'', JObj g5)])"

text \<open>
  Modelled from the spec: \<open>buildAggregationQuery\<close> of \<open>MongoQueryBuilders\<close>
  (\<open>mongo.query-builders.ts\<close> is not among the sources, only its unit test is). The
  stages are pushed in the order the spec gives; which condition feeds which \<open>$match\<close>
  stage and the accumulator names are those of the unit test, whose expected pipeline
  opens with the \<open>$match\<close> of \<open>where\<close> and closes with the \<open>$match\<close> of
  \<open>filterBy\<close>. The \<open>$group\<close> stage is driven by \<open>groupBy\<close> and the five
  aggregates; an absent \<open>groupBy\<close> is the empty list, an absent \<open>count\<close> is
  \<open>False\<close>. The result is the pipeline together with the (empty) options object.
\<close>

definition buildAggregationQuery :: "AggregationParams \<Rightarrow> error + jsval list \<times> js_object" where
  "buildAggregationQuery p =
     (case push_match (where_p p) [] of
        Inl e \<Rightarrow> Inl e
      | Inr pipeline1 \<Rightarrow>
          (let pipeline2 = (if group_requested p then pipeline1 @ [group_stage p]
                            else pipeline1);
               pipeline3 = (case sort_p p of
                              None \<Rightarrow> pipeline2
                            | Some order \<Rightarrow> pipeline2 @ [JObj [(''$sort'', order)]])
           in (case push_match (filterBy p) pipeline3 of
                 Inl e \<Rightarrow> Inl e
               | Inr pipeline4 \<Rightarrow> Inr (pipeline4, []))))"

text \<open>
  The stage order as the specification words it, for comparison: the \<open>$match\<close> of
  \<open>filterBy\<close> first, the \<open>$match\<close> of \<open>where\<close> last.
\<close>

definition spec_stage_order :: "AggregationParams \<Rightarrow> error + jsval list \<times> js_object" where
  "spec_stage_order p =
     (case push_match (filterBy p) [] of
        Inl e \<Rightarrow> Inl e
      | Inr pipeline1 \<Rightarrow>
          (let pipeline2 = (if group_requested p then pipeline1 @ [group_stage p]
                            else pipeline1);
               pipeline3 = (case sort_p p of
                              None \<Rightarrow> pipeline2
                            | Some order \<Rightarrow> pipeline2 @ [JObj [(''$sort'', order)]])
           in (case push_match (where_p p) pipeline3 of
                 Inl e \<Rightarrow> Inl e
               | Inr pipeline4 \<Rightarrow> Inr (pipeline4, []))))"


section \<open>Errors of the collection source\<close>

text \<open>
  An error raised by the driver: whether it is an instance of \<open>MongoError\<close>, its
  numeric \<open>code\<close> (if it has one), its message and its error labels.
\<close>

record driver_error =
  instanceofMongoError :: bool
  code :: "int option"
  message :: string
  errorLabels :: "string list"

datatype SessionErrorType = UnknownTransactionCommitResult | TransientTransactionError | Other

datatype DataSourceErrorType = DuplicateError | InvalidDataError | OtherError

text \<open>
  Everything the collection source throws or catches. \<open>DataSourceError t e ids\<close> is the
  core library's error made by \<open>createDuplicateError\<close>, \<open>createInvalidDataError\<close> or
  \<open>createError\<close> (the tag \<open>t\<close>) around the error \<open>e\<close>, with the duplicated
  identifiers as additional data.
\<close>

datatype thrown =
    DriverError driver_error
  | BulkUpdateOperationsError
  | PendingSessionError
  | SessionError driver_error SessionErrorType
  | DataSourceError DataSourceErrorType thrown "string list"

definition hasErrorLabel :: "driver_error \<Rightarrow> string \<Rightarrow> bool" where
  "hasErrorLabel e label \<longleftrightarrow> label \<in> set (errorLabels e)"

text \<open>The constructor of \<open>SessionError\<close>.\<close>

definition new_SessionError :: "driver_error \<Rightarrow> thrown" where
  "new_SessionError e =
     SessionError e
       (if instanceofMongoError e \<and> hasErrorLabel e ''UnknownTransactionCommitResult''
        then UnknownTransactionCommitResult
        else if instanceofMongoError e \<and> hasErrorLabel e ''TransientTransactionError''
        then TransientTransactionError
        else Other)"

fun thrown_message :: "thrown \<Rightarrow> string" where
  "thrown_message (DriverError e) = message e"
| "thrown_message BulkUpdateOperationsError =
     ''Some of the BulkUpdate operations are different than updateOne and updateMany.''"
| "thrown_message PendingSessionError =
     ''The current session has not ended. Cannot start a new one.''"
| "thrown_message (SessionError e t) = message e"
| "thrown_message (DataSourceError t e ids) = thrown_message e"

fun isDuplicateError :: "thrown \<Rightarrow> bool" where
  "isDuplicateError (DriverError e) = (instanceofMongoError e \<and> code e = Some 11000)"
| "isDuplicateError _ = False"

fun isInvalidDataError :: "thrown \<Rightarrow> bool" where
  "isInvalidDataError (DriverError e) = (instanceofMongoError e \<and> code e = Some 121)"
| "isInvalidDataError _ = False"

definition dquote :: char where
  "dquote = CHR 0x22"

text \<open>
  \<open>errorMessage.match(/"([^"]+)"/g)\<close>: all matches, left to right, each with its two
  quotes. The scan is outside a match (\<open>None\<close>) or behind an opening quote with the
  characters read since (\<open>Some run\<close>). A quote that directly follows an opening quote
  cannot close a match (the group needs one character) and is tried as the next opening
  quote; an opening quote that is never closed gives no match.
\<close>

fun match_quoted :: "string option \<Rightarrow> string \<Rightarrow> string list" where
  "match_quoted st [] = []"
| "match_quoted None (c # cs) =
     (if c = dquote then match_quoted (Some []) cs else match_quoted None cs)"
| "match_quoted (Some run) (c # cs) =
     (if c \<noteq> dquote then match_quoted (Some (run @ [c])) cs
      else if run = [] then match_quoted (Some []) cs
      else (dquote # run @ [dquote]) # match_quoted None cs)"

text \<open>\<open>getDuplicatedDocumentIds\<close>, imported by the collection source as
  \<open>getDuplicatedDataIds\<close>: every match with its quotes removed.\<close>

definition getDuplicatedDocumentIds :: "thrown \<Rightarrow> string list" where
  "getDuplicatedDocumentIds error =
     (let errorMessage = thrown_message error;
          matches = match_quoted None errorMessage
      in if matches \<noteq> [] then map (filter (\<lambda>c. c \<noteq> dquote)) matches else [])"

text \<open>\<open>throwDataSourceError\<close>: the error it throws.\<close>

definition throwDataSourceError :: "thrown \<Rightarrow> thrown" where
  "throwDataSourceError error =
     (if isDuplicateError error
      then DataSourceError DuplicateError error (getDuplicatedDocumentIds error)
      else if isInvalidDataError error
      then DataSourceError InvalidDataError error []
      else DataSourceError OtherError error [])"

section \<open>The collection source\<close>

datatype OperationStatus = Success | Failure | Pending

record UpdateStats =
  status :: OperationStatus
  modifiedCount :: int
  upsertedCount :: int
  upsertedIds :: "jsval list"

record RemoveStats =
  remove_status :: OperationStatus
  deletedCount :: int

text \<open>What the driver returns from \<open>bulkWrite\<close>, \<open>updateOne\<close>/\<open>updateMany\<close> and
  \<open>deleteMany\<close>.\<close>

record BulkWriteResult =
  bw_matchedCount :: int
  bw_modifiedCount :: int
  bw_upsertedCount :: int
  bw_upsertedIds :: "js_object option"

record UpdateResult =
  ur_matchedCount :: int
  ur_modifiedCount :: int
  ur_upsertedCount :: int
  ur_upsertedId :: jsval

record DeleteResult =
  acknowledged :: bool
  dr_deletedCount :: int

text \<open>
  The driver's collection: what each call answers, an error it raises or its result.
  \<open>find\<close> and \<open>aggregate\<close> stand for the call together with the cursor's
  \<open>toArray\<close>; \<open>insertMany\<close> answers the inserted identifiers by index.
\<close>

record collection =
  coll_find :: "jsval \<Rightarrow> jsval \<Rightarrow> driver_error + jsval list"
  coll_countDocuments :: "jsval \<Rightarrow> jsval \<Rightarrow> driver_error + int"
  coll_aggregate :: "jsval list \<Rightarrow> jsval \<Rightarrow> driver_error + jsval list"
  coll_bulkWrite :: "js_object list \<Rightarrow> driver_error + BulkWriteResult"
  coll_updateOne :: "jsval \<Rightarrow> jsval \<Rightarrow> jsval \<Rightarrow> driver_error + UpdateResult"
  coll_updateMany :: "jsval \<Rightarrow> jsval \<Rightarrow> jsval \<Rightarrow> driver_error + UpdateResult"
  coll_insertMany :: "js_object list \<Rightarrow> driver_error + jsval list"
  coll_deleteMany :: "jsval \<Rightarrow> driver_error + DeleteResult"

text \<open>The calls an operation makes on the driver, in order.\<close>

datatype driver_call =
    FindCall jsval jsval
  | CountDocumentsCall jsval jsval
  | AggregateCall "jsval list" jsval
  | BulkWriteCall "js_object list"
  | UpdateOneCall jsval jsval jsval
  | UpdateManyCall jsval jsval jsval
  | InsertManyCall "js_object list"
  | DeleteManyCall jsval
  | StartSessionCall
  | StartTransactionCall
  | CommitTransactionCall
  | AbortTransactionCall
  | EndSessionCall

text \<open>The \<open>try\<close>/\<open>catch\<close> around every operation: a raised error leaves through
  \<open>throwDataSourceError\<close>.\<close>

definition guarded :: "driver_error + 'a \<Rightarrow> ('a \<Rightarrow> 'b) \<Rightarrow> thrown + 'b" where
  "guarded outcome shape =
     (case outcome of
        Inl e \<Rightarrow> Inl (throwDataSourceError (DriverError e))
      | Inr r \<Rightarrow> Inr (shape r))"

text \<open>\<open>x || {}\<close>\<close>

definition or_empty :: "jsval \<Rightarrow> jsval" where
  "or_empty x = (if truthy x then x else JObj [])"

text \<open>
  The operations \<open>find\<close>, \<open>insert\<close> and \<open>remove\<close> carry the suffix \<open>_op\<close>
  here. Each operation answers its result or the error it throws, and the calls it made
  on the driver. A find or count query is absent, or its \<open>filter\<close> and \<open>options\<close>
  (\<open>JUndefined\<close> when not given).
\<close>

definition find_op :: "collection \<Rightarrow> (jsval \<times> jsval) option \<Rightarrow> (thrown + jsval list) \<times> driver_call list" where
  "find_op coll query =
     (let filter_doc = or_empty (case query of None \<Rightarrow> JUndefined | Some (f, opts) \<Rightarrow> f);
          options = or_empty (case query of None \<Rightarrow> JUndefined | Some (f, opts) \<Rightarrow> opts)
      in (guarded (coll_find coll filter_doc options) (\<lambda>list. list),
          [FindCall filter_doc options]))"

definition count :: "collection \<Rightarrow> (jsval \<times> jsval) option \<Rightarrow> (thrown + int) \<times> driver_call list" where
  "count coll query =
     (let filter_doc = or_empty (case query of None \<Rightarrow> JUndefined | Some (f, opts) \<Rightarrow> f);
          options = or_empty (case query of None \<Rightarrow> JUndefined | Some (f, opts) \<Rightarrow> opts)
      in (guarded (coll_countDocuments coll filter_doc options) (\<lambda>n. n),
          [CountDocumentsCall filter_doc options]))"

text \<open>\<open>aggregate\<close> sets \<open>allowDiskUse\<close> on the options when there are any.\<close>

definition aggregate ::
  "collection \<Rightarrow> jsval list \<Rightarrow> js_object option \<Rightarrow> (thrown + jsval list) \<times> driver_call list" where
  "aggregate coll pipeline options =
     (let options1 = (case options of
                        None \<Rightarrow> JUndefined
                      | Some opts \<Rightarrow> JObj (obj_set opts ''allowDiskUse'' (JBool True)))
      in (guarded (coll_aggregate coll pipeline options1) (\<lambda>list. list),
          [AggregateCall pipeline options1]))"

text \<open>\<open>isBulkUpdate\<close>: the \<open>forEach\<close> over the operations with the flag \<open>result\<close>.\<close>

definition isBulkUpdate :: "js_object list \<Rightarrow> bool" where
  "isBulkUpdate operations =
     foldl (\<lambda>result operation.
              if \<not> truthy (obj_get operation ''updateOne'')
                 \<and> \<not> truthy (obj_get operation ''updateMany'')
              then False else result)
       True operations"

definition bulk_stats :: "BulkWriteResult \<Rightarrow> UpdateStats" where
  "bulk_stats r =
     \<lparr>status = (if bw_matchedCount r > 0 then Success else Failure),
      modifiedCount = bw_modifiedCount r,
      upsertedCount = bw_upsertedCount r,
      upsertedIds = (case bw_upsertedIds r of None \<Rightarrow> [] | Some ids \<Rightarrow> map snd ids)\<rparr>"

definition update_stats :: "UpdateResult \<Rightarrow> UpdateStats" where
  "update_stats r =
     \<lparr>status = (if ur_matchedCount r > 0 then Success else Failure),
      modifiedCount = ur_modifiedCount r,
      upsertedCount = ur_upsertedCount r,
      upsertedIds = (if truthy (ur_upsertedId r) then [ur_upsertedId r] else [])\<rparr>"

definition update :: "collection \<Rightarrow> update_query \<Rightarrow> (thrown + UpdateStats) \<times> driver_call list" where
  "update coll query =
     (case query of
        BulkOperations operations \<Rightarrow>
          (if isBulkUpdate operations
           then (guarded (coll_bulkWrite coll operations) bulk_stats,
                 [BulkWriteCall operations])
           else (Inl (throwDataSourceError BulkUpdateOperationsError), []))
      | UpdateParams filter_doc update_doc options method \<Rightarrow>
          (if method = Some UpdateOne
           then (guarded (coll_updateOne coll filter_doc update_doc options) update_stats,
                 [UpdateOneCall filter_doc update_doc options])
           else (guarded (coll_updateMany coll filter_doc update_doc options) update_stats,
                 [UpdateManyCall filter_doc update_doc options])))"

text \<open>\<open>{ _id: insertResult.insertedIds[index], ...document }\<close>\<close>

definition with_id :: "jsval \<Rightarrow> js_object \<Rightarrow> js_object" where
  "with_id ident document = foldl (\<lambda>obj (k, v). obj_set obj k v) [(''_id'', ident)] document"

definition inserted_id :: "jsval list \<Rightarrow> nat \<Rightarrow> jsval" where
  "inserted_id ids index = (if index < length ids then ids ! index else JUndefined)"

definition insert_op :: "collection \<Rightarrow> js_object list \<Rightarrow> (thrown + js_object list) \<times> driver_call list" where
  "insert_op coll query =
     (guarded (coll_insertMany coll query)
        (\<lambda>insertedIds. map (\<lambda>(document, index). with_id (inserted_id insertedIds index) document)
                         (zip query [0..<length query])),
      [InsertManyCall query])"

definition remove_op :: "collection \<Rightarrow> jsval \<Rightarrow> (thrown + RemoveStats) \<times> driver_call list" where
  "remove_op coll filter_doc =
     (guarded (coll_deleteMany coll filter_doc)
        (\<lambda>r. \<lparr>remove_status =
                 (if acknowledged r \<and> dr_deletedCount r > 0 then Success
                  else if acknowledged r \<and> dr_deletedCount r = 0 then Failure
                  else Pending),
               deletedCount = dr_deletedCount r\<rparr>),
      [DeleteManyCall filter_doc])"

section \<open>Transactions\<close>

text \<open>
  The session held by a collection source and the driver calls made so far. A session
  object is an opaque handle; \<open>None\<close> is the unset (or \<open>null\<close>) field.
\<close>

type_synonym session = nat

record source_state =
  currentSession :: "session option"
  calls :: "driver_call list"

text \<open>What the client and its sessions answer: \<open>None\<close> for a call that returns, the
  error for one that throws.\<close>

record session_driver =
  client_startSession :: "driver_error + session"
  session_startTransaction :: "driver_error option"
  session_commitTransaction :: "driver_error option"
  session_abortTransaction :: "driver_error option"
  session_endSession :: "driver_error option"

definition log_call :: "driver_call \<Rightarrow> source_state \<Rightarrow> source_state" where
  "log_call c st = st\<lparr>calls := calls st @ [c]\<rparr>"

definition startTransaction ::
  "session_driver \<Rightarrow> source_state \<Rightarrow> (thrown + unit) \<times> source_state" where
  "startTransaction drv st =
     (if currentSession st \<noteq> None
      then (Inl (DataSourceError OtherError PendingSessionError []), st)
      else
        (let st1 = log_call StartSessionCall st
         in (case client_startSession drv of
               Inl e \<Rightarrow> (Inl (DataSourceError OtherError (new_SessionError e) []), st1)
             | Inr s \<Rightarrow>
                 (let st2 = log_call StartTransactionCall (st1\<lparr>currentSession := Some s\<rparr>)
                  in (case session_startTransaction drv of
                        Some e \<Rightarrow> (Inl (DataSourceError OtherError (new_SessionError e) []), st2)
                      | None \<Rightarrow> (Inr (), st2))))))"

text \<open>The common body of \<open>commitTransaction\<close> and \<open>rollbackTransaction\<close>: the
  session's call, then \<open>endSession\<close>, then the field is cleared.\<close>

definition finish_session ::
  "driver_call \<Rightarrow> driver_error option \<Rightarrow> session_driver \<Rightarrow> source_state
     \<Rightarrow> (thrown + unit) \<times> source_state" where
  "finish_session c outcome drv st =
     (if currentSession st \<noteq> None
      then
        (let st1 = log_call c st
         in (case outcome of
               Some e \<Rightarrow> (Inl (DataSourceError OtherError (new_SessionError e) []), st1)
             | None \<Rightarrow>
                 (let st2 = log_call EndSessionCall st1
                  in (case session_endSession drv of
                        Some e \<Rightarrow> (Inl (DataSourceError OtherError (new_SessionError e) []), st2)
                      | None \<Rightarrow> (Inr (), st2\<lparr>currentSession := None\<rparr>)))))
      else (Inr (), st))"

definition commitTransaction ::
  "session_driver \<Rightarrow> source_state \<Rightarrow> (thrown + unit) \<times> source_state" where
  "commitTransaction drv st =
     finish_session CommitTransactionCall (session_commitTransaction drv) drv st"

definition rollbackTransaction ::
  "session_driver \<Rightarrow> source_state \<Rightarrow> (thrown + unit) \<times> source_state" where
  "rollbackTransaction drv st =
     finish_session AbortTransactionCall (session_abortTransaction drv) drv st"


section \<open>Inputs of the unit tests\<close>

text \<open>The parameters of the aggregation test of \<open>mongo.query-builders.unit.test.ts\<close>.\<close>

definition unit_test_aggregation :: AggregationParams where
  "unit_test_aggregation =
     \<lparr>groupBy = [''name''],
      filterBy = Some (leaf ''age'' isGte (JNum 18)),
      sort_p = Some (JObj [(''name'', JNum 1)]),
      sum_p = Some ''salary'',
      average_p = Some ''rating'',
      min_p = Some ''age'',
      max_p = Some ''age'',
      count_p = True,
      where_p = Some (leaf ''department'' isEq (JStr ''Sales''))\<rparr>"

text \<open>A request with no parameters.\<close>

definition no_aggregation_params :: AggregationParams where
  "no_aggregation_params =
     \<lparr>groupBy = [], filterBy = None, sort_p = None, sum_p = None, average_p = None,
      min_p = None, max_p = None, count_p = False, where_p = None\<rparr>"

text \<open>The duplicate-key error of the test of \<open>getDuplicatedDocumentIds\<close>, as the driver
  raises it: a \<open>MongoError\<close> with code 11000.\<close>

definition unit_test_duplicate_error :: driver_error where
  "unit_test_duplicate_error =
     \<lparr>instanceofMongoError = True, code = Some 11000,
      message = ''E11000 duplicate key error collection: test.collection index: _id_ dup key: { _id: ''
                @ [dquote] @ ''duplicatedId'' @ [dquote] @ '' }'',
      errorLabels = []\<rparr>"

definition validation_error :: driver_error where
  "validation_error =
     \<lparr>instanceofMongoError = True, code = Some 121, message = ''Document failed validation'',
      errorLabels = []\<rparr>"

definition mocked_error :: driver_error where
  "mocked_error =
     \<lparr>instanceofMongoError = False, code = None, message = ''Mocked error'', errorLabels = []\<rparr>"

text \<open>A collection every call of which raises the given error, and one every call of
  which returns an empty result.\<close>

definition raising_collection :: "driver_error \<Rightarrow> collection" where
  "raising_collection e =
     \<lparr>coll_find = (\<lambda>f opts. Inl e),
      coll_countDocuments = (\<lambda>f opts. Inl e),
      coll_aggregate = (\<lambda>pipeline opts. Inl e),
      coll_bulkWrite = (\<lambda>ops. Inl e),
      coll_updateOne = (\<lambda>f u opts. Inl e),
      coll_updateMany = (\<lambda>f u opts. Inl e),
      coll_insertMany = (\<lambda>docs. Inl e),
      coll_deleteMany = (\<lambda>f. Inl e)\<rparr>"

definition quiet_collection :: collection where
  "quiet_collection =
     \<lparr>coll_find = (\<lambda>f opts. Inr []),
      coll_countDocuments = (\<lambda>f opts. Inr 0),
      coll_aggregate = (\<lambda>pipeline opts. Inr []),
      coll_bulkWrite = (\<lambda>ops. Inr \<lparr>bw_matchedCount = 0, bw_modifiedCount = 0,
                               bw_upsertedCount = 0, bw_upsertedIds = None\<rparr>),
      coll_updateOne = (\<lambda>f u opts. Inr \<lparr>ur_matchedCount = 0, ur_modifiedCount = 0,
                                    ur_upsertedCount = 0, ur_upsertedId = JNull\<rparr>),
      coll_updateMany = (\<lambda>f u opts. Inr \<lparr>ur_matchedCount = 0, ur_modifiedCount = 0,
                                     ur_upsertedCount = 0, ur_upsertedId = JNull\<rparr>),
      coll_insertMany = (\<lambda>docs. Inr []),
      coll_deleteMany = (\<lambda>f. Inr \<lparr>acknowledged = True, dr_deletedCount = 0\<rparr>)\<rparr>"

text \<open>The operations of the test of \<open>isBulkUpdate\<close> that are no updates.\<close>

definition unit_test_other_operations :: "js_object list" where
  "unit_test_other_operations =
     [[(''insertOne'', JObj [(''document'', JObj [(''_id'', JNum 1), (''name'', JStr ''test'')])])],
      [(''deleteOne'', JObj [(''filter'', JObj [(''_id'', JNum 1)])])]]"

text \<open>Session drivers: every call succeeds; the commit fails.\<close>

definition healthy_driver :: session_driver where
  "healthy_driver =
     \<lparr>client_startSession = Inr 1, session_startTransaction = None,
      session_commitTransaction = None, session_abortTransaction = None,
      session_endSession = None\<rparr>"

definition commit_failing_driver :: session_driver where
  "commit_failing_driver =
     \<lparr>client_startSession = Inr 1, session_startTransaction = None,
      session_commitTransaction = Some mocked_error, session_abortTransaction = None,
      session_endSession = None\<rparr>"

definition idle_state :: source_state where
  "idle_state = \<lparr>currentSession = None, calls = []\<rparr>"

definition active_state :: source_state where
  "active_state = \<lparr>currentSession = Some 1, calls = []\<rparr>"

section \<open>Properties of objects\<close>


lemma obj_get_obj_set: "obj_get (obj_set obj k v) k' = (if k' = k then v else obj_get obj k')"
  by (induction obj) auto

lemma map_fst_obj_set:
  "map fst (obj_set obj k v) = (if k \<in> fst ` set obj then map fst obj else map fst obj @ [k])"
  by (induction obj) force+

lemma keys_obj_set: "fst ` set (obj_set obj k v) = insert k (fst ` set obj)"
proof -
  have "set (map fst (obj_set obj k v)) = insert k (set (map fst obj))"
    unfolding map_fst_obj_set by auto
  then show ?thesis by simp
qed

lemma obj_get_absent: "k \<notin> fst ` set obj \<Longrightarrow> obj_get obj k = JUndefined"
  by (induction obj) auto

lemma obj_set_absent: "k \<notin> fst ` set obj \<Longrightarrow> obj_set obj k v = obj @ [(k, v)]"
  by (induction obj) auto

section \<open>Properties of the query builders\<close>

lemma push_match_Inl: "push_match cond [] = Inl e \<Longrightarrow> push_match cond pipeline = Inl e"
  by (simp add: push_match_def split: option.splits sum.splits)

lemma push_match_Inr: "push_match cond [] = Inr m \<Longrightarrow> push_match cond pipeline = Inr (pipeline @ m)"
  by (auto simp: push_match_def split: option.splits sum.splits)


lemma group_id_fold:
  "obj_get (foldl (\<lambda>ids f. obj_set ids f (JStr (''$'' @ f))) ids keys) f
     = (if f \<in> set keys then JStr (''$'' @ f) else obj_get ids f) \<and>
   fst ` set (foldl (\<lambda>ids f. obj_set ids f (JStr (''$'' @ f))) ids keys)
     = fst ` set ids \<union> set keys"
proof (induction keys arbitrary: ids)
  case Nil
  then show ?case by simp
next
  case (Cons k keys)
  show ?case
    using Cons.IH [of "obj_set ids k (JStr (''$'' @ k))"]
    by (simp add: keys_obj_set obj_get_obj_set)
qed


lemma aggregation_pipeline_concat:
  "buildAggregationQuery p =
     (case push_match (where_p p) [] of
        Inl e \<Rightarrow> Inl e
      | Inr m1 \<Rightarrow>
          (case push_match (filterBy p) [] of
             Inl e \<Rightarrow> Inl e
           | Inr m2 \<Rightarrow>
               Inr (m1 @ (if group_requested p then [group_stage p] else [])
                       @ (case sort_p p of None \<Rightarrow> [] | Some order \<Rightarrow> [JObj [(''$sort'', order)]])
                       @ m2, [])))"
proof (cases "push_match (where_p p) []")
  case (Inl e)
  then show ?thesis by (simp add: buildAggregationQuery_def)
next
  case m1: (Inr m1)
  show ?thesis
  proof (cases "push_match (filterBy p) []")
    case (Inl e)
    have "\<And>pl. push_match (filterBy p) pl = Inl e"
      using Inl by (rule push_match_Inl)
    then show ?thesis
      using m1 by (simp add: buildAggregationQuery_def Let_def)
  next
    case (Inr m2)
    have "\<And>pl. push_match (filterBy p) pl = Inr (pl @ m2)"
      using Inr by (rule push_match_Inr)
    then show ?thesis
      using m1 by (simp add: buildAggregationQuery_def Let_def split: option.splits)
  qed
qed

lemma group_id_entries:
  "fst ` set (group_id keys) = set keys \<and>
   (\<forall>f \<in> set keys. obj_get (group_id keys) f = JStr (''$'' @ f))"
  using group_id_fold [of "[]" keys] by (simp add: group_id_def)




lemma set_accumulator_fresh:
  "name \<notin> fst ` set stage \<Longrightarrow>
   set_accumulator name token field stage =
     stage @ (case field of None \<Rightarrow> [] | Some f \<Rightarrow> [(name, JObj [(token, JStr (''$'' @ f))])])"
  by (simp add: set_accumulator_def obj_set_absent split: option.splits)

lemma group_stage_entries:
  "group_stage p = JObj [(''$group'', JObj (
      [(''_id'', JObj (group_id (groupBy p)))]
      @ (case sum_p p of None \<Rightarrow> [] | Some f \<Rightarrow> [(''totalSum'', JObj [(''$sum'', JStr (''$'' @ f))])])
      @ (case average_p p of None \<Rightarrow> [] | Some f \<Rightarrow> [(''average'', JObj [(''$avg'', JStr (''$'' @ f))])])
      @ (case min_p p of None \<Rightarrow> [] | Some f \<Rightarrow> [(''min'', JObj [(''$min'', JStr (''$'' @ f))])])
      @ (case max_p p of None \<Rightarrow> [] | Some f \<Rightarrow> [(''max'', JObj [(''$max'', JStr (''$'' @ f))])])
      @ (if count_p p then [(''count'', JObj [(''$sum'', JNum 1)])] else [])))]"
proof -
  let ?g0 = "[(''_id'', JObj (group_id (groupBy p)))]"
  let ?s = "(case sum_p p of None \<Rightarrow> [] | Some f \<Rightarrow> [(''totalSum'', JObj [(''$sum'', JStr (''$'' @ f))])])"
  let ?a = "(case average_p p of None \<Rightarrow> [] | Some f \<Rightarrow> [(''average'', JObj [(''$avg'', JStr (''$'' @ f))])])"
  let ?mi = "(case min_p p of None \<Rightarrow> [] | Some f \<Rightarrow> [(''min'', JObj [(''$min'', JStr (''$'' @ f))])])"
  let ?ma = "(case max_p p of None \<Rightarrow> [] | Some f \<Rightarrow> [(''max'', JObj [(''$max'', JStr (''$'' @ f))])])"
  have ks: "fst ` set ?s \<subseteq> {''totalSum''}" by (cases "sum_p p") simp_all
  have ka: "fst ` set ?a \<subseteq> {''average''}" by (cases "average_p p") simp_all
  have kmi: "fst ` set ?mi \<subseteq> {''min''}" by (cases "min_p p") simp_all
  have kma: "fst ` set ?ma \<subseteq> {''max''}" by (cases "max_p p") simp_all
  have g1: "set_accumulator ''totalSum'' ''$sum'' (sum_p p) ?g0 = ?g0 @ ?s"
    by (rule set_accumulator_fresh) simp
  have g2: "set_accumulator ''average'' ''$avg'' (average_p p) (?g0 @ ?s) = (?g0 @ ?s) @ ?a"
    by (rule set_accumulator_fresh) (use ks in auto)
  have g3: "set_accumulator ''min'' ''$min'' (min_p p) ((?g0 @ ?s) @ ?a) = ((?g0 @ ?s) @ ?a) @ ?mi"
    by (rule set_accumulator_fresh) (use ks ka in auto)
  have g4: "set_accumulator ''max'' ''$max'' (max_p p) (((?g0 @ ?s) @ ?a) @ ?mi)
              = (((?g0 @ ?s) @ ?a) @ ?mi) @ ?ma"
    by (rule set_accumulator_fresh) (use ks ka kmi in auto)
  have g5: "obj_set ((((?g0 @ ?s) @ ?a) @ ?mi) @ ?ma) ''count'' (JObj [(''$sum'', JNum 1)])
              = ((((?g0 @ ?s) @ ?a) @ ?mi) @ ?ma) @ [(''count'', JObj [(''$sum'', JNum 1)])]"
    by (rule obj_set_absent) (use ks ka kmi kma in auto)
  show ?thesis
    unfolding group_stage_def Let_def g1 g2 g3 g4 using g5 by simp
qed

lemma group_id_fold_distinct:
  "distinct keys \<Longrightarrow> set keys \<inter> fst ` set ids = {} \<Longrightarrow>
   foldl (\<lambda>ids f. obj_set ids f (JStr (''$'' @ f))) ids keys
     = ids @ map (\<lambda>f. (f, JStr (''$'' @ f))) keys"
proof (induction keys arbitrary: ids)
  case Nil
  then show ?case by simp
next
  case (Cons k keys)
  have absent: "k \<notin> fst ` set ids" using Cons.prems by auto
  have step: "obj_set ids k (JStr (''$'' @ k)) = ids @ [(k, JStr (''$'' @ k))]"
    using absent by (rule obj_set_absent)
  have disj: "set keys \<inter> fst ` set (ids @ [(k, JStr (''$'' @ k))]) = {}"
    using Cons.prems by auto
  have d: "distinct keys" using Cons.prems by simp
  show ?case
    using Cons.IH [OF d disj] step by simp
qed

lemma group_id_distinct:
  "distinct keys \<Longrightarrow> group_id keys = map (\<lambda>f. (f, JStr (''$'' @ f))) keys"
  using group_id_fold_distinct [of keys "[]"] by (simp add: group_id_def)




lemma first_unknown_method_split:
  "\<forall>m \<in> set pre. m = UpdateOne \<or> m = UpdateMany \<Longrightarrow>
   first_unknown_method (pre @ UnknownMethod name # post) = Some name"
  by (induction pre rule: first_unknown_method.induct) auto

lemma first_unknown_method_None:
  "first_unknown_method ms = None \<longleftrightarrow> (\<forall>m \<in> set ms. m = UpdateOne \<or> m = UpdateMany)"
  by (induction ms rule: first_unknown_method.induct) auto

lemma bulk_documents_valid:
  "length us = length ws \<Longrightarrow> length ms = length ws \<Longrightarrow> length fs = length ws \<Longrightarrow>
   \<forall>m \<in> set ms. m = UpdateOne \<or> m = UpdateMany \<Longrightarrow>
   \<forall>i < length ws. parse ThisClass (ws ! i) = Inr (fs ! i) \<Longrightarrow>
   bulk_documents us ws ms
     = Inr (map (\<lambda>i. bulk_document (us ! i) (fs ! i) (ms ! i)) [0..<length us])"
proof (induction us ws ms arbitrary: fs rule: bulk_documents.induct)
  case (1 u us w ws m ms)
  from "1.prems"(3) obtain f fs' where fs: "fs = f # fs'" by (cases fs) auto
  have pw: "parse ThisClass w = Inr f"
    using "1.prems"(5) fs by auto
  have valid_m: "m = UpdateOne \<or> m = UpdateMany" using "1.prems"(4) by simp
  have rest: "\<forall>i < length ws. parse ThisClass (ws ! i) = Inr (fs' ! i)"
    using "1.prems"(5) fs by auto
  have IH: "bulk_documents us ws ms
              = Inr (map (\<lambda>i. bulk_document (us ! i) (fs' ! i) (ms ! i)) [0..<length us])"
    using valid_m
  proof
    assume "m = UpdateOne"
    then show ?thesis
      using "1.IH"(1) [OF pw _ , of fs'] "1.prems" fs rest by simp
  next
    assume "m = UpdateMany"
    then show ?thesis
      using "1.IH"(2) [OF pw _ , of fs'] "1.prems" fs rest by simp
  qed
  have shift: "map (\<lambda>i. bulk_document ((u # us) ! i) (fs ! i) ((m # ms) ! i)) [0..<length (u # us)]
      = bulk_document u f m # map (\<lambda>i. bulk_document (us ! i) (fs' ! i) (ms ! i)) [0..<length us]"
    unfolding fs by (simp add: upt_conv_Cons map_Suc_upt [symmetric] del: upt_Suc)
  show ?case
    unfolding shift using pw IH valid_m by auto
qed simp_all




section \<open>Properties of the error classifier and the bulk guard\<close>

lemma match_quoted_skip:
  "dquote \<notin> set pre \<Longrightarrow> match_quoted None (pre @ s) = match_quoted None s"
  by (induction pre) auto

lemma match_quoted_run:
  "dquote \<notin> set ident \<Longrightarrow> run @ ident \<noteq> [] \<Longrightarrow>
   match_quoted (Some run) (ident @ dquote # post)
     = (dquote # run @ ident @ [dquote]) # match_quoted None post"
  by (induction ident arbitrary: run) auto

lemma match_quoted_no_quote:
  "dquote \<notin> set s \<Longrightarrow> match_quoted None s = []"
  by (induction s) auto

lemma strip_quotes: "dquote \<notin> set ident \<Longrightarrow> filter (\<lambda>c. c \<noteq> dquote) (dquote # ident @ [dquote]) = ident"
  by (induction ident) auto

lemma getDuplicatedDocumentIds_matches:
  "getDuplicatedDocumentIds error =
     map (filter (\<lambda>c. c \<noteq> dquote)) (match_quoted None (thrown_message error))"
  by (simp add: getDuplicatedDocumentIds_def Let_def)

lemma getDuplicatedDocumentIds_first:
  assumes "dquote \<notin> set pre" "ident \<noteq> []" "dquote \<notin> set ident"
  shows "getDuplicatedDocumentIds (DriverError (e\<lparr>message := pre @ [dquote] @ ident @ [dquote] @ post\<rparr>))
           = ident # getDuplicatedDocumentIds (DriverError (e\<lparr>message := post\<rparr>))"
proof -
  have "match_quoted None (pre @ [dquote] @ ident @ [dquote] @ post)
          = match_quoted None (dquote # ident @ dquote # post)"
    using match_quoted_skip [OF assms(1), of "[dquote] @ ident @ [dquote] @ post"] by simp
  also have "\<dots> = match_quoted (Some []) (ident @ dquote # post)" by simp
  also have "\<dots> = (dquote # [] @ ident @ [dquote]) # match_quoted None post"
    using assms by (intro match_quoted_run) simp_all
  finally show ?thesis
    using strip_quotes [OF assms(3)] by (simp add: getDuplicatedDocumentIds_matches)
qed

lemma throwDataSourceError_wraps:
  "\<exists>t ids. throwDataSourceError e = DataSourceError t e ids"
  by (simp add: throwDataSourceError_def)

lemma guarded_Inl: "guarded outcome shape = Inl x \<Longrightarrow> \<exists>e. outcome = Inl e \<and> x = throwDataSourceError (DriverError e)"
  by (auto simp: guarded_def split: sum.splits)

lemma guarded_raised:
  "outcome = Inl e \<Longrightarrow> guarded outcome shape = Inl (throwDataSourceError (DriverError e))"
  by (simp add: guarded_def)

lemma isBulkUpdate_foldl:
  "foldl (\<lambda>result operation.
              if \<not> truthy (obj_get operation ''updateOne'')
                 \<and> \<not> truthy (obj_get operation ''updateMany'')
              then False else result) b operations
     = (b \<and> (\<forall>operation \<in> set operations.
          truthy (obj_get operation ''updateOne'') \<or> truthy (obj_get operation ''updateMany'')))"
  by (induction operations arbitrary: b) auto

lemma isBulkUpdate_all:
  "isBulkUpdate operations \<longleftrightarrow>
     (\<forall>operation \<in> set operations.
        truthy (obj_get operation ''updateOne'') \<or> truthy (obj_get operation ''updateMany''))"
  by (simp add: isBulkUpdate_def isBulkUpdate_foldl)



section \<open>Properties of the parser\<close>

lemma parse_chain_unmapped:
  assumes "\<forall>(k, c) \<in> set pre. operatorMap (operator c) \<noteq> None"
    and "operatorMap (operator c0) = None"
  shows "parse_chain (pre @ (key, c0) # post) query =
           Inl (UnsupportedOperatorError (WhereOperator_name (operator c0)))"
  using assms
proof (induction pre arbitrary: query)
  case Nil
  then show ?case by simp
next
  case (Cons kc pre)
  obtain k c where kc: "kc = (k, c)" by (cases kc)
  from Cons.prems kc obtain m where m: "operatorMap (operator c) = Some m" by auto
  from Cons.prems have rest: "\<forall>(k, c) \<in> set pre. operatorMap (operator c) \<noteq> None" by simp
  show ?case
    using Cons.IH [OF rest Cons.prems(2)] kc m by (simp add: Let_def)
qed

text \<open>
  A \<open>Where\<close> instance is parsed without reading \<open>this\<close>, so a connective over
  \<open>Where\<close> instances is the connective token over their filters.
\<close>

lemma parse_where_instance:
  "is_where_instance w \<Longrightarrow> parse this w = parse ThisClass w"
  by (cases w) simp_all

lemma parse_connective_of_two_instances:
  assumes "is_where_instance a" "is_where_instance b"
    and "parse ThisClass a = Inr fa" "parse ThisClass b = Inr fb"
    and "connective = ''and'' \<or> connective = ''or''"
  shows "parse ThisClass (PlainObject [(connective, Some [a, b])])
           = Inr (JObj [(''$'' @ connective, JArr [fa, fb])])"
  using assms parse_where_instance [of a ThisUndefined] parse_where_instance [of b ThisUndefined]
  by auto


text \<open>
  The leaves of the eighteen operators of the operator map: \<open>{field: {nativeOp: value}}\<close>
  with the mapped native operator, \<open>{field: {$eq: null}}\<close> for \<open>isNull\<close> whatever the
  value, and the fixed clauses of \<open>isEmpty\<close> and \<open>isNotEmpty\<close>.
\<close>

lemma parse_leaf_mapping:
  "parse this (leaf field isEq v) = Inr (JObj [(field, JObj [(''$eq'', v)])]) \<and>
   parse this (leaf field isNotEq v) = Inr (JObj [(field, JObj [(''$ne'', v)])]) \<and>
   parse this (leaf field isLt v) = Inr (JObj [(field, JObj [(''$lt'', v)])]) \<and>
   parse this (leaf field isLte v) = Inr (JObj [(field, JObj [(''$lte'', v)])]) \<and>
   parse this (leaf field isGt v) = Inr (JObj [(field, JObj [(''$gt'', v)])]) \<and>
   parse this (leaf field isGte v) = Inr (JObj [(field, JObj [(''$gte'', v)])]) \<and>
   parse this (leaf field isInRange v) = Inr (JObj [(field, JObj [(''$in'', v)])]) \<and>
   parse this (leaf field isNotInRange v) = Inr (JObj [(field, JObj [(''$nin'', v)])]) \<and>
   parse this (leaf field isIn v) = Inr (JObj [(field, JObj [(''$in'', v)])]) \<and>
   parse this (leaf field isNotIn v) = Inr (JObj [(field, JObj [(''$nin'', v)])]) \<and>
   parse this (leaf field isTrue v) = Inr (JObj [(field, JObj [(''$eq'', v)])]) \<and>
   parse this (leaf field isFalse v) = Inr (JObj [(field, JObj [(''$eq'', v)])]) \<and>
   parse this (leaf field is0 v) = Inr (JObj [(field, JObj [(''$eq'', v)])]) \<and>
   parse this (leaf field is1 v) = Inr (JObj [(field, JObj [(''$eq'', v)])]) \<and>
   parse this (leaf field isNotNull v) = Inr (JObj [(field, JObj [(''$ne'', v)])]) \<and>
   parse this (leaf field isNull v) = Inr (JObj [(field, JObj [(''$eq'', JNull)])]) \<and>
   parse this (leaf field isEmpty v) = Inr (JObj [(field, JObj [(''$or'',
     JArr [JObj [(''$eq'', JStr [])], JObj [(''$eq'', JArr [])], JObj [(''$eq'', JObj [])]])])]) \<and>
   parse this (leaf field isNotEmpty v) = Inr (JObj [(field, JObj [(''$and'',
     JArr [JObj [(''$ne'', JStr [])], JObj [(''$ne'', JArr [])], JObj [(''$ne'', JObj [])]])])])"
  by simp

section \<open>Verified properties\<close>

text \<open>
  C1, as amended. For every aggregation request whose conditions parse,
  \<open>buildAggregationQuery\<close> produces the pipeline in the fixed stage order: a
  \<open>$match\<close> built from \<open>params.where\<close> first (when present), then a single
  \<open>$group\<close> stage holding \<open>_id\<close> with one entry \<open>field: '$field'\<close> per
  \<open>groupBy\<close> field and one accumulator per requested aggregate and no other
  (\<open>sum\<close> as \<open>totalSum: {$sum}\<close>, \<open>average\<close> as \<open>{$avg}\<close>, \<open>min\<close> as
  \<open>{$min}\<close>, \<open>max\<close> as \<open>{$max}\<close>, \<open>count\<close> as \<open>{$sum: 1}\<close>), then
  \<open>$sort\<close> (when present), then a trailing \<open>$match\<close> built from
  \<open>params.filterBy\<close> last (when present). A stage whose driving parameter is absent
  is omitted, so a request with no parameters yields the empty pipeline.
\<close>

theorem buildAggregationQuery_stage_order:
  "((case where_p p of None \<Rightarrow> True | Some w \<Rightarrow> parse ThisClass w = Inr f1) \<and>
    (case filterBy p of None \<Rightarrow> True | Some w \<Rightarrow> parse ThisClass w = Inr f2)
     \<longrightarrow> buildAggregationQuery p =
          Inr ((case where_p p of None \<Rightarrow> [] | Some w \<Rightarrow> [JObj [(''$match'', f1)]])
               @ (if group_requested p
                  then [JObj [(''$group'', JObj (
                     [(''_id'', JObj (group_id (groupBy p)))]
                     @ (case sum_p p of None \<Rightarrow> []
                        | Some f \<Rightarrow> [(''totalSum'', JObj [(''$sum'', JStr (''$'' @ f))])])
                     @ (case average_p p of None \<Rightarrow> []
                        | Some f \<Rightarrow> [(''average'', JObj [(''$avg'', JStr (''$'' @ f))])])
                     @ (case min_p p of None \<Rightarrow> []
                        | Some f \<Rightarrow> [(''min'', JObj [(''$min'', JStr (''$'' @ f))])])
                     @ (case max_p p of None \<Rightarrow> []
                        | Some f \<Rightarrow> [(''max'', JObj [(''$max'', JStr (''$'' @ f))])])
                     @ (if count_p p then [(''count'', JObj [(''$sum'', JNum 1)])] else [])))]]
                  else [])
               @ (case sort_p p of None \<Rightarrow> [] | Some order \<Rightarrow> [JObj [(''$sort'', order)]])
               @ (case filterBy p of None \<Rightarrow> [] | Some w \<Rightarrow> [JObj [(''$match'', f2)]]),
               [])) \<and>
   (fst ` set (group_id (groupBy q)) = set (groupBy q) \<and>
    (\<forall>f \<in> set (groupBy q). obj_get (group_id (groupBy q)) f = JStr (''$'' @ f))) \<and>
   (distinct (groupBy q) \<longrightarrow>
      group_id (groupBy q) = map (\<lambda>f. (f, JStr (''$'' @ f))) (groupBy q)) \<and>
   (where_p r = None \<and> filterBy r = None \<and> sort_p r = None \<and> \<not> group_requested r
     \<longrightarrow> buildAggregationQuery r = Inr ([], []))"
proof (intro conjI impI ballI)
  assume a: "(case where_p p of None \<Rightarrow> True | Some w \<Rightarrow> parse ThisClass w = Inr f1) \<and>
    (case filterBy p of None \<Rightarrow> True | Some w \<Rightarrow> parse ThisClass w = Inr f2)"
  have m1: "push_match (where_p p) []
      = Inr (case where_p p of None \<Rightarrow> [] | Some w \<Rightarrow> [JObj [(''$match'', f1)]])"
    using a by (simp add: push_match_def split: option.splits)
  have m2: "push_match (filterBy p) []
      = Inr (case filterBy p of None \<Rightarrow> [] | Some w \<Rightarrow> [JObj [(''$match'', f2)]])"
    using a by (simp add: push_match_def split: option.splits)
  show "buildAggregationQuery p =
          Inr ((case where_p p of None \<Rightarrow> [] | Some w \<Rightarrow> [JObj [(''$match'', f1)]])
               @ (if group_requested p
                  then [JObj [(''$group'', JObj (
                     [(''_id'', JObj (group_id (groupBy p)))]
                     @ (case sum_p p of None \<Rightarrow> []
                        | Some f \<Rightarrow> [(''totalSum'', JObj [(''$sum'', JStr (''$'' @ f))])])
                     @ (case average_p p of None \<Rightarrow> []
                        | Some f \<Rightarrow> [(''average'', JObj [(''$avg'', JStr (''$'' @ f))])])
                     @ (case min_p p of None \<Rightarrow> []
                        | Some f \<Rightarrow> [(''min'', JObj [(''$min'', JStr (''$'' @ f))])])
                     @ (case max_p p of None \<Rightarrow> []
                        | Some f \<Rightarrow> [(''max'', JObj [(''$max'', JStr (''$'' @ f))])])
                     @ (if count_p p then [(''count'', JObj [(''$sum'', JNum 1)])] else [])))]]
                  else [])
               @ (case sort_p p of None \<Rightarrow> [] | Some order \<Rightarrow> [JObj [(''$sort'', order)]])
               @ (case filterBy p of None \<Rightarrow> [] | Some w \<Rightarrow> [JObj [(''$match'', f2)]]),
               [])"
    unfolding aggregation_pipeline_concat m1 m2 group_stage_entries by simp
next
  show "fst ` set (group_id (groupBy q)) = set (groupBy q)"
    using group_id_entries by blast
next
  fix f assume "f \<in> set (groupBy q)"
  then show "obj_get (group_id (groupBy q)) f = JStr (''$'' @ f)"
    using group_id_entries by blast
next
  assume "distinct (groupBy q)"
  then show "group_id (groupBy q) = map (\<lambda>f. (f, JStr (''$'' @ f))) (groupBy q)"
    by (rule group_id_distinct)
next
  assume "where_p r = None \<and> filterBy r = None \<and> sort_p r = None \<and> \<not> group_requested r"
  then show "buildAggregationQuery r = Inr ([], [])"
    by (simp add: aggregation_pipeline_concat push_match_def)
qed

text \<open>The request of the unit test and the request with no parameters.\<close>

theorem buildAggregationQuery_stage_order_witness:
  "buildAggregationQuery unit_test_aggregation =
     Inr ([JObj [(''$match'', JObj [(''department'', JObj [(''$eq'', JStr ''Sales'')])])],
           JObj [(''$group'', JObj [(''_id'', JObj [(''name'', JStr ''$name'')]),
                   (''totalSum'', JObj [(''$sum'', JStr ''$salary'')]),
                   (''average'', JObj [(''$avg'', JStr ''$rating'')]),
                   (''min'', JObj [(''$min'', JStr ''$age'')]),
                   (''max'', JObj [(''$max'', JStr ''$age'')]),
                   (''count'', JObj [(''$sum'', JNum 1)])])],
           JObj [(''$sort'', JObj [(''name'', JNum 1)])],
           JObj [(''$match'', JObj [(''age'', JObj [(''$gte'', JNum 18)])])]], []) \<and>
   obj_get (group_id (groupBy unit_test_aggregation)) ''name'' = JStr ''$name'' \<and>
   group_id (groupBy unit_test_aggregation) = [(''name'', JStr ''$name'')] \<and>
   buildAggregationQuery no_aggregation_params = Inr ([], [])"
  using buildAggregationQuery_stage_order [where p = unit_test_aggregation
      and ?f1.0 = "JObj [(''department'', JObj [(''$eq'', JStr ''Sales'')])]"
      and ?f2.0 = "JObj [(''age'', JObj [(''$gte'', JNum 18)])]"
      and q = unit_test_aggregation and r = no_aggregation_params]
  by (simp add: unit_test_aggregation_def no_aggregation_params_def group_requested_def)

text \<open>
  On the request of the unit test the pipeline opens with the \<open>$match\<close> of
  \<open>where\<close> (department) and closes with the \<open>$match\<close> of \<open>filterBy\<close> (age),
  as the test expects; the order with \<open>filterBy\<close> first and \<open>where\<close> last is a
  different pipeline.
\<close>

theorem spec_stage_order_counterexample:
  "buildAggregationQuery unit_test_aggregation =
     Inr ([JObj [(''$match'', JObj [(''department'', JObj [(''$eq'', JStr ''Sales'')])])],
           JObj [(''$group'', JObj [(''_id'', JObj [(''name'', JStr ''$name'')]),
                   (''totalSum'', JObj [(''$sum'', JStr ''$salary'')]),
                   (''average'', JObj [(''$avg'', JStr ''$rating'')]),
                   (''min'', JObj [(''$min'', JStr ''$age'')]),
                   (''max'', JObj [(''$max'', JStr ''$age'')]),
                   (''count'', JObj [(''$sum'', JNum 1)])])],
           JObj [(''$sort'', JObj [(''name'', JNum 1)])],
           JObj [(''$match'', JObj [(''age'', JObj [(''$gte'', JNum 18)])])]], []) \<and>
   spec_stage_order unit_test_aggregation =
     Inr ([JObj [(''$match'', JObj [(''age'', JObj [(''$gte'', JNum 18)])])],
           JObj [(''$group'', JObj [(''_id'', JObj [(''name'', JStr ''$name'')]),
                   (''totalSum'', JObj [(''$sum'', JStr ''$salary'')]),
                   (''average'', JObj [(''$avg'', JStr ''$rating'')]),
                   (''min'', JObj [(''$min'', JStr ''$age'')]),
                   (''max'', JObj [(''$max'', JStr ''$age'')]),
                   (''count'', JObj [(''$sum'', JNum 1)])])],
           JObj [(''$sort'', JObj [(''name'', JNum 1)])],
           JObj [(''$match'', JObj [(''department'', JObj [(''$eq'', JStr ''Sales'')])])]], []) \<and>
   buildAggregationQuery unit_test_aggregation \<noteq> spec_stage_order unit_test_aggregation"
  by (simp add: buildAggregationQuery_def spec_stage_order_def unit_test_aggregation_def
      push_match_def group_requested_def group_stage_def group_id_def set_accumulator_def)

text \<open>
  C2. The session life cycle keeps at most one session per collection source:
  \<open>startTransaction\<close> with a session held fails with the wrapped pending-session
  error and leaves the state as it is, the driver's \<open>startSession\<close> not being called;
  \<open>commitTransaction\<close> and \<open>rollbackTransaction\<close> without a session return and
  change nothing; a commit that the driver fails throws the wrapped \<open>SessionError\<close>
  after the one call of the driver's commit, the session still held and not ended; a
  commit or rollback that the driver and \<open>endSession\<close> carry out ends the session
  and clears the field, and whenever either operation returns normally no session is
  held afterwards. A start from the idle state holds the session the driver gave.
\<close>

theorem transaction_life_cycle:
  "(currentSession st1 \<noteq> None
      \<longrightarrow> startTransaction drv1 st1
            = (Inl (DataSourceError OtherError PendingSessionError []), st1)) \<and>
   (currentSession st2 = None
      \<longrightarrow> commitTransaction drv2 st2 = (Inr (), st2)
          \<and> rollbackTransaction drv2 st2 = (Inr (), st2)) \<and>
   (currentSession st3 \<noteq> None \<and> session_commitTransaction drv3 = Some e3
      \<longrightarrow> commitTransaction drv3 st3
            = (Inl (DataSourceError OtherError (new_SessionError e3) []),
               st3\<lparr>calls := calls st3 @ [CommitTransactionCall]\<rparr>)
          \<and> currentSession (snd (commitTransaction drv3 st3)) = currentSession st3) \<and>
   (currentSession st4 \<noteq> None \<and> session_commitTransaction drv4 = None
      \<and> session_endSession drv4 = None
      \<longrightarrow> commitTransaction drv4 st4
            = (Inr (), st4\<lparr>currentSession := None,
                 calls := calls st4 @ [CommitTransactionCall, EndSessionCall]\<rparr>)) \<and>
   (currentSession st5 \<noteq> None \<and> session_abortTransaction drv5 = None
      \<and> session_endSession drv5 = None
      \<longrightarrow> rollbackTransaction drv5 st5
            = (Inr (), st5\<lparr>currentSession := None,
                 calls := calls st5 @ [AbortTransactionCall, EndSessionCall]\<rparr>)) \<and>
   (currentSession st6 = None \<and> client_startSession drv6 = Inr s
      \<and> session_startTransaction drv6 = None
      \<longrightarrow> startTransaction drv6 st6
            = (Inr (), st6\<lparr>currentSession := Some s,
                 calls := calls st6 @ [StartSessionCall, StartTransactionCall]\<rparr>)) \<and>
   (fst (commitTransaction drv7 st7) = Inr ()
      \<longrightarrow> currentSession (snd (commitTransaction drv7 st7)) = None) \<and>
   (fst (rollbackTransaction drv8 st8) = Inr ()
      \<longrightarrow> currentSession (snd (rollbackTransaction drv8 st8)) = None)"
  by (auto simp add: startTransaction_def commitTransaction_def rollbackTransaction_def
      finish_session_def log_call_def Let_def
      split: option.splits)

text \<open>A source that holds session 1, and an idle one, against a driver whose calls all
  succeed and one whose commit fails.\<close>

theorem transaction_life_cycle_witness:
  "startTransaction healthy_driver active_state
     = (Inl (DataSourceError OtherError PendingSessionError []), active_state) \<and>
   StartSessionCall \<notin> set (calls (snd (startTransaction healthy_driver active_state))) \<and>
   commitTransaction healthy_driver idle_state = (Inr (), idle_state) \<and>
   rollbackTransaction healthy_driver idle_state = (Inr (), idle_state) \<and>
   commitTransaction commit_failing_driver active_state
     = (Inl (DataSourceError OtherError (SessionError mocked_error Other) []),
        \<lparr>currentSession = Some 1, calls = [CommitTransactionCall]\<rparr>) \<and>
   commitTransaction healthy_driver active_state
     = (Inr (), \<lparr>currentSession = None, calls = [CommitTransactionCall, EndSessionCall]\<rparr>) \<and>
   rollbackTransaction healthy_driver active_state
     = (Inr (), \<lparr>currentSession = None, calls = [AbortTransactionCall, EndSessionCall]\<rparr>) \<and>
   startTransaction healthy_driver idle_state
     = (Inr (), \<lparr>currentSession = Some 1, calls = [StartSessionCall, StartTransactionCall]\<rparr>) \<and>
   fst (commitTransaction healthy_driver active_state) = Inr () \<and>
   currentSession (snd (commitTransaction healthy_driver active_state)) = None \<and>
   fst (rollbackTransaction healthy_driver active_state) = Inr () \<and>
   currentSession (snd (rollbackTransaction healthy_driver active_state)) = None"
  using transaction_life_cycle [where ?st1.0 = active_state and ?drv1.0 = healthy_driver
      and ?st2.0 = idle_state and ?drv2.0 = healthy_driver
      and ?st3.0 = active_state and ?drv3.0 = commit_failing_driver and ?e3.0 = mocked_error
      and ?st4.0 = active_state and ?drv4.0 = healthy_driver
      and ?st5.0 = active_state and ?drv5.0 = healthy_driver
      and ?st6.0 = idle_state and ?drv6.0 = healthy_driver and s = 1
      and ?st7.0 = active_state and ?drv7.0 = healthy_driver
      and ?st8.0 = active_state and ?drv8.0 = healthy_driver]
  by (simp add: active_state_def idle_state_def healthy_driver_def commit_failing_driver_def
      new_SessionError_def mocked_error_def)

text \<open>
  C3, evaluated where it fails. The operator map has eighteen entries and none for
  \<open>isBetween\<close>. A leaf whose operator is outside the map, under whatever name the
  enumeration lists it, raises \<open>UnsupportedOperatorError\<close> with that name; and no
  leaf at all, whatever its operator and value, parses to the two-bound clause
  \<open>{field: {$gte: lower, $lte: upper}}\<close>. So \<open>age\<close> between 18 and 24 raises the
  error instead of giving \<open>{age: {$gte: 18, $lte: 24}}\<close>.
\<close>

theorem parse_isBetween_unsupported:
  "parse this (leaf field (OtherOperator name) v) = Inl (UnsupportedOperatorError name) \<and>
   parse this (leaf field op v) \<noteq> Inr (JObj [(field, JObj [(''$gte'', lower), (''$lte'', upper)])]) \<and>
   parse ThisClass (leaf ''age'' (OtherOperator (Some ''isBetween'')) (JArr [JNum 18, JNum 24]))
     = Inl (UnsupportedOperatorError (Some ''isBetween'')) \<and>
   parse ThisClass (leaf ''age'' (OtherOperator (Some ''isBetween'')) (JArr [JNum 18, JNum 24]))
     \<noteq> Inr (JObj [(''age'', JObj [(''$gte'', JNum 18), (''$lte'', JNum 24)])])"
  by (cases op) simp_all

text \<open>
  C4. \<open>buildUpdateQuery\<close> fails with the parameter-count error carrying the three
  lengths whenever the three arrays differ in length; with equal lengths it fails with
  the unknown-method error carrying the first method that is neither \<open>UpdateOne\<close> nor
  \<open>UpdateMany\<close>; for one valid triple whose condition parses it returns the single
  command \<open>{filter, update: {$set: fields}, options, method}\<close> with
  \<open>options = {upsert: true}\<close> exactly when the method is \<open>UpdateOne\<close>; for more
  than one valid triple it returns one bulk document per triple in input order,
  \<open>{updateOne: {filter, update, upsert: true}}\<close> or \<open>{updateMany: {filter, update}}\<close>
  without an \<open>upsert\<close> key.
\<close>

theorem buildUpdateQuery_contract:
  "(\<not> (length us1 = length ws1 \<and> length us1 = length ms1)
      \<longrightarrow> buildUpdateQuery us1 ws1 ms1
            = Inl (InconsistentUpdateParamsError (length us1) (length ws1) (length ms1))) \<and>
   (length us2 = length ws2 \<and> length us2 = length (pre @ UnknownMethod name # post)
      \<and> (\<forall>m \<in> set pre. m = UpdateOne \<or> m = UpdateMany)
      \<longrightarrow> buildUpdateQuery us2 ws2 (pre @ UnknownMethod name # post)
            = Inl (UnknownUpdateMethodError name)) \<and>
   ((m = UpdateOne \<or> m = UpdateMany) \<and> parse ThisClass w = Inr f
      \<longrightarrow> buildUpdateQuery [u] [w] [m]
            = Inr (UpdateParams f (JObj [(''$set'', u)])
                    (if m = UpdateOne then JObj [(''upsert'', JBool True)] else JUndefined)
                    (Some m))) \<and>
   (1 < length us \<and> length us = length ws \<and> length us = length ms
      \<and> length fs = length ws
      \<and> (\<forall>m \<in> set ms. m = UpdateOne \<or> m = UpdateMany)
      \<and> (\<forall>i < length ws. parse ThisClass (ws ! i) = Inr (fs ! i))
      \<longrightarrow> buildUpdateQuery us ws ms
            = Inr (BulkOperations (map (\<lambda>i.
                if ms ! i = UpdateOne
                then [(''updateOne'', JObj [(''filter'', fs ! i),
                        (''update'', JObj [(''$set'', us ! i)]), (''upsert'', JBool True)])]
                else [(''updateMany'', JObj [(''filter'', fs ! i),
                        (''update'', JObj [(''$set'', us ! i)])])]) [0..<length us])))"
proof (intro conjI impI)
  assume "\<not> (length us1 = length ws1 \<and> length us1 = length ms1)"
  then show "buildUpdateQuery us1 ws1 ms1
      = Inl (InconsistentUpdateParamsError (length us1) (length ws1) (length ms1))"
    by (simp add: buildUpdateQuery_def)
next
  assume a: "length us2 = length ws2 \<and> length us2 = length (pre @ UnknownMethod name # post)
      \<and> (\<forall>m \<in> set pre. m = UpdateOne \<or> m = UpdateMany)"
  then have "first_unknown_method (pre @ UnknownMethod name # post) = Some name"
    by (simp add: first_unknown_method_split)
  then show "buildUpdateQuery us2 ws2 (pre @ UnknownMethod name # post)
      = Inl (UnknownUpdateMethodError name)"
    using a by (simp add: buildUpdateQuery_def)
next
  assume a: "(m = UpdateOne \<or> m = UpdateMany) \<and> parse ThisClass w = Inr f"
  then have "first_unknown_method [m] = None" by auto
  then show "buildUpdateQuery [u] [w] [m]
      = Inr (UpdateParams f (JObj [(''$set'', u)])
              (if m = UpdateOne then JObj [(''upsert'', JBool True)] else JUndefined) (Some m))"
    using a by (simp add: buildUpdateQuery_def)
next
  assume a: "1 < length us \<and> length us = length ws \<and> length us = length ms
      \<and> length fs = length ws
      \<and> (\<forall>m \<in> set ms. m = UpdateOne \<or> m = UpdateMany)
      \<and> (\<forall>i < length ws. parse ThisClass (ws ! i) = Inr (fs ! i))"
  have none: "first_unknown_method ms = None"
    using a by (simp add: first_unknown_method_None)
  have docs: "bulk_documents us ws ms
      = Inr (map (\<lambda>i. bulk_document (us ! i) (fs ! i) (ms ! i)) [0..<length us])"
    using a by (intro bulk_documents_valid) simp_all
  obtain u1 u2 us' where us: "us = u1 # u2 # us'"
    using a by (cases us; cases "tl us") auto
  show "buildUpdateQuery us ws ms
            = Inr (BulkOperations (map (\<lambda>i.
                if ms ! i = UpdateOne
                then [(''updateOne'', JObj [(''filter'', fs ! i),
                        (''update'', JObj [(''$set'', us ! i)]), (''upsert'', JBool True)])]
                else [(''updateMany'', JObj [(''filter'', fs ! i),
                        (''update'', JObj [(''$set'', us ! i)])])]) [0..<length us]))"
    using a none docs unfolding buildUpdateQuery_def bulk_document_def us by simp
qed

text \<open>The four cases on the inputs of the unit tests.\<close>

theorem buildUpdateQuery_contract_witness:
  "buildUpdateQuery [JObj [(''name'', JStr ''John'')], JObj [(''name'', JStr ''Jane'')]]
       [leaf ''age'' isGte (JNum 18)] [UpdateOne, UpdateMany]
     = Inl (InconsistentUpdateParamsError 2 1 2) \<and>
   buildUpdateQuery [JObj [(''name'', JStr ''John'')]] [leaf ''age'' isGte (JNum 18)]
       [UnknownMethod ''unknownMethod'']
     = Inl (UnknownUpdateMethodError ''unknownMethod'') \<and>
   buildUpdateQuery [JObj [(''name'', JStr ''John'')]] [leaf ''age'' isGte (JNum 18)] [UpdateOne]
     = Inr (UpdateParams (JObj [(''age'', JObj [(''$gte'', JNum 18)])])
             (JObj [(''$set'', JObj [(''name'', JStr ''John'')])])
             (JObj [(''upsert'', JBool True)]) (Some UpdateOne)) \<and>
   buildUpdateQuery [JObj [(''name'', JStr ''John'')], JObj [(''name'', JStr ''Jane'')]]
       [leaf ''age'' isGte (JNum 18), leaf ''age'' isLt (JNum 18)] [UpdateOne, UpdateMany]
     = Inr (BulkOperations
        [[(''updateOne'', JObj [(''filter'', JObj [(''age'', JObj [(''$gte'', JNum 18)])]),
            (''update'', JObj [(''$set'', JObj [(''name'', JStr ''John'')])]),
            (''upsert'', JBool True)])],
         [(''updateMany'', JObj [(''filter'', JObj [(''age'', JObj [(''$lt'', JNum 18)])]),
            (''update'', JObj [(''$set'', JObj [(''name'', JStr ''Jane'')])])])]])"
  using buildUpdateQuery_contract [where
      ?us1.0 = "[JObj [(''name'', JStr ''John'')], JObj [(''name'', JStr ''Jane'')]]"
      and ?ws1.0 = "[leaf ''age'' isGte (JNum 18)]" and ?ms1.0 = "[UpdateOne, UpdateMany]"
      and ?us2.0 = "[JObj [(''name'', JStr ''John'')]]"
      and ?ws2.0 = "[leaf ''age'' isGte (JNum 18)]"
      and pre = "[]" and name = "''unknownMethod''" and post = "[]"
      and m = UpdateOne and w = "leaf ''age'' isGte (JNum 18)"
      and f = "JObj [(''age'', JObj [(''$gte'', JNum 18)])]"
      and u = "JObj [(''name'', JStr ''John'')]"
      and us = "[JObj [(''name'', JStr ''John'')], JObj [(''name'', JStr ''Jane'')]]"
      and ws = "[leaf ''age'' isGte (JNum 18), leaf ''age'' isLt (JNum 18)]"
      and ms = "[UpdateOne, UpdateMany]"
      and fs = "[JObj [(''age'', JObj [(''$gte'', JNum 18)])], JObj [(''age'', JObj [(''$lt'', JNum 18)])]]"]
  by (simp add: nth_Cons' less_Suc_eq upt_rec [of 0] upt_rec [of 1] upt_rec [of 2] all_conj_distrib)

text \<open>
  C5. An error the driver raises leaves a collection operation reclassified, in a fixed
  precedence: a \<open>MongoError\<close> with code 11000 becomes the duplicate error carrying the
  identifiers read from its message, a \<open>MongoError\<close> with code 121 becomes the
  invalid-data error, every other error becomes the generic wrapped error. The
  identifiers are the double-quoted substrings of the message from left to right: a
  message that continues, after text without quotes, with a quoted non-empty identifier
  yields that identifier followed by those of the rest, and text without quotes yields
  none. For each of \<open>find\<close>, \<open>count\<close>, \<open>aggregate\<close>, \<open>update\<close> (by
  \<open>updateOne\<close>, \<open>updateMany\<close> and \<open>bulkWrite\<close>), \<open>insert\<close> and
  \<open>remove\<close>: when the driver's call raises an error, the operation throws the
  classification of that very error; and whatever the operation throws is the
  classification of the error its driver call raised, never the driver's error itself.
\<close>

theorem driver_errors_reclassified:
  "(instanceofMongoError e1 \<and> code e1 = Some 11000
      \<longrightarrow> throwDataSourceError (DriverError e1)
            = DataSourceError DuplicateError (DriverError e1)
                (getDuplicatedDocumentIds (DriverError e1))) \<and>
   (instanceofMongoError e2 \<and> code e2 = Some 121
      \<longrightarrow> throwDataSourceError (DriverError e2)
            = DataSourceError InvalidDataError (DriverError e2) []) \<and>
   (\<not> (instanceofMongoError e3 \<and> (code e3 = Some 11000 \<or> code e3 = Some 121))
      \<longrightarrow> throwDataSourceError (DriverError e3)
            = DataSourceError OtherError (DriverError e3) []) \<and>
   (dquote \<notin> set pre \<and> ident \<noteq> [] \<and> dquote \<notin> set ident
      \<longrightarrow> getDuplicatedDocumentIds
              (DriverError (e4\<lparr>message := pre @ [dquote] @ ident @ [dquote] @ post\<rparr>))
            = ident # getDuplicatedDocumentIds (DriverError (e4\<lparr>message := post\<rparr>))) \<and>
   (dquote \<notin> set rest
      \<longrightarrow> getDuplicatedDocumentIds (DriverError (e5\<lparr>message := rest\<rparr>)) = []) \<and>
   (coll_find c1 (or_empty (case q1 of None \<Rightarrow> JUndefined | Some (f, opts) \<Rightarrow> f))
        (or_empty (case q1 of None \<Rightarrow> JUndefined | Some (f, opts) \<Rightarrow> opts)) = Inl r1
      \<longrightarrow> fst (find_op c1 q1) = Inl (throwDataSourceError (DriverError r1))) \<and>
   (coll_countDocuments c2 (or_empty (case q2 of None \<Rightarrow> JUndefined | Some (f, opts) \<Rightarrow> f))
        (or_empty (case q2 of None \<Rightarrow> JUndefined | Some (f, opts) \<Rightarrow> opts)) = Inl r2
      \<longrightarrow> fst (count c2 q2) = Inl (throwDataSourceError (DriverError r2))) \<and>
   (coll_aggregate c3 pipeline
        (case options of None \<Rightarrow> JUndefined
         | Some opts \<Rightarrow> JObj (obj_set opts ''allowDiskUse'' (JBool True))) = Inl r3
      \<longrightarrow> fst (aggregate c3 pipeline options) = Inl (throwDataSourceError (DriverError r3))) \<and>
   (coll_updateOne c4 f4 u4 o4 = Inl r4
      \<longrightarrow> fst (update c4 (UpdateParams f4 u4 o4 (Some UpdateOne)))
            = Inl (throwDataSourceError (DriverError r4))) \<and>
   (m5 \<noteq> Some UpdateOne \<and> coll_updateMany c5 f5 u5 o5 = Inl r5
      \<longrightarrow> fst (update c5 (UpdateParams f5 u5 o5 m5))
            = Inl (throwDataSourceError (DriverError r5))) \<and>
   (isBulkUpdate operations \<and> coll_bulkWrite c6 operations = Inl r6
      \<longrightarrow> fst (update c6 (BulkOperations operations))
            = Inl (throwDataSourceError (DriverError r6))) \<and>
   (coll_insertMany c7 docs = Inl r7
      \<longrightarrow> fst (insert_op c7 docs) = Inl (throwDataSourceError (DriverError r7))) \<and>
   (coll_deleteMany c8 f8 = Inl r8
      \<longrightarrow> fst (remove_op c8 f8) = Inl (throwDataSourceError (DriverError r8))) \<and>
   (fst (find_op c1 q1) = Inl x1
      \<longrightarrow> (\<exists>e. coll_find c1 (or_empty (case q1 of None \<Rightarrow> JUndefined | Some (f, opts) \<Rightarrow> f))
                 (or_empty (case q1 of None \<Rightarrow> JUndefined | Some (f, opts) \<Rightarrow> opts)) = Inl e
               \<and> x1 = throwDataSourceError (DriverError e))) \<and>
   (fst (count c2 q2) = Inl x2
      \<longrightarrow> (\<exists>e. coll_countDocuments c2
                 (or_empty (case q2 of None \<Rightarrow> JUndefined | Some (f, opts) \<Rightarrow> f))
                 (or_empty (case q2 of None \<Rightarrow> JUndefined | Some (f, opts) \<Rightarrow> opts)) = Inl e
               \<and> x2 = throwDataSourceError (DriverError e))) \<and>
   (fst (aggregate c3 pipeline options) = Inl x3
      \<longrightarrow> (\<exists>e. coll_aggregate c3 pipeline
                 (case options of None \<Rightarrow> JUndefined
                  | Some opts \<Rightarrow> JObj (obj_set opts ''allowDiskUse'' (JBool True))) = Inl e
               \<and> x3 = throwDataSourceError (DriverError e))) \<and>
   (fst (update c4 (UpdateParams f4 u4 o4 (Some UpdateOne))) = Inl x4
      \<longrightarrow> (\<exists>e. coll_updateOne c4 f4 u4 o4 = Inl e
               \<and> x4 = throwDataSourceError (DriverError e))) \<and>
   (m5 \<noteq> Some UpdateOne \<and> fst (update c5 (UpdateParams f5 u5 o5 m5)) = Inl x5
      \<longrightarrow> (\<exists>e. coll_updateMany c5 f5 u5 o5 = Inl e
               \<and> x5 = throwDataSourceError (DriverError e))) \<and>
   (isBulkUpdate operations \<and> fst (update c6 (BulkOperations operations)) = Inl x6
      \<longrightarrow> (\<exists>e. coll_bulkWrite c6 operations = Inl e
               \<and> x6 = throwDataSourceError (DriverError e))) \<and>
   (fst (insert_op c7 docs) = Inl x7
      \<longrightarrow> (\<exists>e. coll_insertMany c7 docs = Inl e
               \<and> x7 = throwDataSourceError (DriverError e))) \<and>
   (fst (remove_op c8 f8) = Inl x8
      \<longrightarrow> (\<exists>e. coll_deleteMany c8 f8 = Inl e
               \<and> x8 = throwDataSourceError (DriverError e)))"
proof -
  have classify:
    "(instanceofMongoError e1 \<and> code e1 = Some 11000
      \<longrightarrow> throwDataSourceError (DriverError e1)
            = DataSourceError DuplicateError (DriverError e1)
                (getDuplicatedDocumentIds (DriverError e1))) \<and>
     (instanceofMongoError e2 \<and> code e2 = Some 121
      \<longrightarrow> throwDataSourceError (DriverError e2)
            = DataSourceError InvalidDataError (DriverError e2) []) \<and>
     (\<not> (instanceofMongoError e3 \<and> (code e3 = Some 11000 \<or> code e3 = Some 121))
      \<longrightarrow> throwDataSourceError (DriverError e3)
            = DataSourceError OtherError (DriverError e3) [])"
    by (simp add: throwDataSourceError_def)
  have ids1: "dquote \<notin> set pre \<and> ident \<noteq> [] \<and> dquote \<notin> set ident
      \<longrightarrow> getDuplicatedDocumentIds
              (DriverError (e4\<lparr>message := pre @ [dquote] @ ident @ [dquote] @ post\<rparr>))
            = ident # getDuplicatedDocumentIds (DriverError (e4\<lparr>message := post\<rparr>))"
    using getDuplicatedDocumentIds_first by blast
  have ids2: "dquote \<notin> set rest
      \<longrightarrow> getDuplicatedDocumentIds (DriverError (e5\<lparr>message := rest\<rparr>)) = []"
    by (simp add: getDuplicatedDocumentIds_matches match_quoted_no_quote)
  have f1: "coll_find c1 (or_empty (case q1 of None \<Rightarrow> JUndefined | Some (f, opts) \<Rightarrow> f))
        (or_empty (case q1 of None \<Rightarrow> JUndefined | Some (f, opts) \<Rightarrow> opts)) = Inl r1
      \<longrightarrow> fst (find_op c1 q1) = Inl (throwDataSourceError (DriverError r1))"
    by (simp add: find_op_def Let_def guarded_raised)
  have f2: "coll_countDocuments c2 (or_empty (case q2 of None \<Rightarrow> JUndefined | Some (f, opts) \<Rightarrow> f))
        (or_empty (case q2 of None \<Rightarrow> JUndefined | Some (f, opts) \<Rightarrow> opts)) = Inl r2
      \<longrightarrow> fst (count c2 q2) = Inl (throwDataSourceError (DriverError r2))"
    by (simp add: count_def Let_def guarded_raised)
  have f3: "coll_aggregate c3 pipeline
        (case options of None \<Rightarrow> JUndefined
         | Some opts \<Rightarrow> JObj (obj_set opts ''allowDiskUse'' (JBool True))) = Inl r3
      \<longrightarrow> fst (aggregate c3 pipeline options) = Inl (throwDataSourceError (DriverError r3))"
    by (simp add: aggregate_def Let_def guarded_raised)
  have f4: "coll_updateOne c4 f4 u4 o4 = Inl r4
      \<longrightarrow> fst (update c4 (UpdateParams f4 u4 o4 (Some UpdateOne)))
            = Inl (throwDataSourceError (DriverError r4))"
    by (simp add: update_def guarded_raised)
  have f5: "m5 \<noteq> Some UpdateOne \<and> coll_updateMany c5 f5 u5 o5 = Inl r5
      \<longrightarrow> fst (update c5 (UpdateParams f5 u5 o5 m5))
            = Inl (throwDataSourceError (DriverError r5))"
    by (simp add: update_def guarded_raised)
  have f6: "isBulkUpdate operations \<and> coll_bulkWrite c6 operations = Inl r6
      \<longrightarrow> fst (update c6 (BulkOperations operations))
            = Inl (throwDataSourceError (DriverError r6))"
    by (simp add: update_def guarded_raised)
  have f7: "coll_insertMany c7 docs = Inl r7
      \<longrightarrow> fst (insert_op c7 docs) = Inl (throwDataSourceError (DriverError r7))"
    by (simp add: insert_op_def guarded_raised)
  have f8: "coll_deleteMany c8 f8 = Inl r8
      \<longrightarrow> fst (remove_op c8 f8) = Inl (throwDataSourceError (DriverError r8))"
    by (simp add: remove_op_def guarded_raised)
  have b1: "fst (find_op c1 q1) = Inl x1
      \<longrightarrow> (\<exists>e. coll_find c1 (or_empty (case q1 of None \<Rightarrow> JUndefined | Some (f, opts) \<Rightarrow> f))
                 (or_empty (case q1 of None \<Rightarrow> JUndefined | Some (f, opts) \<Rightarrow> opts)) = Inl e
               \<and> x1 = throwDataSourceError (DriverError e))"
    by (auto simp: find_op_def Let_def dest: guarded_Inl)
  have b2: "fst (count c2 q2) = Inl x2
      \<longrightarrow> (\<exists>e. coll_countDocuments c2
                 (or_empty (case q2 of None \<Rightarrow> JUndefined | Some (f, opts) \<Rightarrow> f))
                 (or_empty (case q2 of None \<Rightarrow> JUndefined | Some (f, opts) \<Rightarrow> opts)) = Inl e
               \<and> x2 = throwDataSourceError (DriverError e))"
    by (auto simp: count_def Let_def dest: guarded_Inl)
  have b3: "fst (aggregate c3 pipeline options) = Inl x3
      \<longrightarrow> (\<exists>e. coll_aggregate c3 pipeline
                 (case options of None \<Rightarrow> JUndefined
                  | Some opts \<Rightarrow> JObj (obj_set opts ''allowDiskUse'' (JBool True))) = Inl e
               \<and> x3 = throwDataSourceError (DriverError e))"
    by (auto simp: aggregate_def Let_def dest: guarded_Inl)
  have b4: "fst (update c4 (UpdateParams f4 u4 o4 (Some UpdateOne))) = Inl x4
      \<longrightarrow> (\<exists>e. coll_updateOne c4 f4 u4 o4 = Inl e
               \<and> x4 = throwDataSourceError (DriverError e))"
    by (auto simp: update_def dest: guarded_Inl)
  have b5: "m5 \<noteq> Some UpdateOne \<and> fst (update c5 (UpdateParams f5 u5 o5 m5)) = Inl x5
      \<longrightarrow> (\<exists>e. coll_updateMany c5 f5 u5 o5 = Inl e
               \<and> x5 = throwDataSourceError (DriverError e))"
    by (auto simp: update_def dest: guarded_Inl)
  have b6: "isBulkUpdate operations \<and> fst (update c6 (BulkOperations operations)) = Inl x6
      \<longrightarrow> (\<exists>e. coll_bulkWrite c6 operations = Inl e
               \<and> x6 = throwDataSourceError (DriverError e))"
    by (auto simp: update_def dest: guarded_Inl)
  have b7: "fst (insert_op c7 docs) = Inl x7
      \<longrightarrow> (\<exists>e. coll_insertMany c7 docs = Inl e
               \<and> x7 = throwDataSourceError (DriverError e))"
    by (auto simp: insert_op_def dest: guarded_Inl)
  have b8: "fst (remove_op c8 f8) = Inl x8
      \<longrightarrow> (\<exists>e. coll_deleteMany c8 f8 = Inl e
               \<and> x8 = throwDataSourceError (DriverError e))"
    by (auto simp: remove_op_def dest: guarded_Inl)
  show ?thesis
    by (intro conjI) (use classify ids1 ids2 in blast, use classify in blast,
      use classify in blast, rule ids1, rule ids2, rule f1, rule f2, rule f3, rule f4,
      rule f5, rule f6, rule f7, rule f8, rule b1, rule b2, rule b3, rule b4, rule b5,
      rule b6, rule b7, rule b8)
qed

text \<open>The duplicate-key error of the unit test, whose message ends in
  \<open>dup key: { _id: "duplicatedId" }\<close>, a validation error and a plain error, raised
  by every call of a collection.\<close>

theorem driver_errors_reclassified_witness:
  "throwDataSourceError (DriverError unit_test_duplicate_error)
     = DataSourceError DuplicateError (DriverError unit_test_duplicate_error) [''duplicatedId''] \<and>
   throwDataSourceError (DriverError validation_error)
     = DataSourceError InvalidDataError (DriverError validation_error) [] \<and>
   throwDataSourceError (DriverError mocked_error)
     = DataSourceError OtherError (DriverError mocked_error) [] \<and>
   fst (find_op (raising_collection mocked_error) None)
     = Inl (DataSourceError OtherError (DriverError mocked_error) []) \<and>
   fst (count (raising_collection validation_error) None)
     = Inl (DataSourceError InvalidDataError (DriverError validation_error) []) \<and>
   fst (aggregate (raising_collection mocked_error) [] None)
     = Inl (DataSourceError OtherError (DriverError mocked_error) []) \<and>
   fst (update (raising_collection validation_error)
          (UpdateParams (JObj []) (JObj []) JUndefined (Some UpdateOne)))
     = Inl (DataSourceError InvalidDataError (DriverError validation_error) []) \<and>
   fst (update (raising_collection mocked_error) (UpdateParams (JObj []) (JObj []) JUndefined None))
     = Inl (DataSourceError OtherError (DriverError mocked_error) []) \<and>
   fst (update (raising_collection unit_test_duplicate_error)
          (BulkOperations [[(''updateOne'', JObj [])]]))
     = Inl (DataSourceError DuplicateError (DriverError unit_test_duplicate_error)
             [''duplicatedId'']) \<and>
   fst (insert_op (raising_collection unit_test_duplicate_error) [[(''_id'', JStr ''duplicatedId'')]])
     = Inl (DataSourceError DuplicateError (DriverError unit_test_duplicate_error)
             [''duplicatedId'']) \<and>
   fst (remove_op (raising_collection unit_test_duplicate_error) (JObj []))
     = Inl (DataSourceError DuplicateError (DriverError unit_test_duplicate_error)
             [''duplicatedId''])"
  using driver_errors_reclassified [where ?e1.0 = unit_test_duplicate_error
      and ?e2.0 = validation_error and ?e3.0 = mocked_error
      and pre = "''E11000 duplicate key error collection: test.collection index: _id_ dup key: { _id: ''"
      and ident = "''duplicatedId''" and post = "'' }''" and ?e4.0 = unit_test_duplicate_error
      and rest = "'' }''" and ?e5.0 = unit_test_duplicate_error
      and ?c1.0 = "raising_collection mocked_error" and ?q1.0 = None and ?r1.0 = mocked_error
      and ?x1.0 = "DataSourceError OtherError (DriverError mocked_error) []"
      and ?c2.0 = "raising_collection validation_error" and ?q2.0 = None
      and ?r2.0 = validation_error
      and ?x2.0 = "DataSourceError InvalidDataError (DriverError validation_error) []"
      and ?c3.0 = "raising_collection mocked_error" and pipeline = "[]" and options = None
      and ?r3.0 = mocked_error
      and ?x3.0 = "DataSourceError OtherError (DriverError mocked_error) []"
      and ?c4.0 = "raising_collection validation_error" and ?f4.0 = "JObj []"
      and ?u4.0 = "JObj []" and ?o4.0 = JUndefined and ?r4.0 = validation_error
      and ?x4.0 = "DataSourceError InvalidDataError (DriverError validation_error) []"
      and ?c5.0 = "raising_collection mocked_error" and ?f5.0 = "JObj []"
      and ?u5.0 = "JObj []" and ?o5.0 = JUndefined and ?m5.0 = None and ?r5.0 = mocked_error
      and ?x5.0 = "DataSourceError OtherError (DriverError mocked_error) []"
      and operations = "[[(''updateOne'', JObj [])]]"
      and ?c6.0 = "raising_collection unit_test_duplicate_error"
      and ?r6.0 = unit_test_duplicate_error
      and ?x6.0 = "DataSourceError DuplicateError (DriverError unit_test_duplicate_error) [''duplicatedId'']"
      and ?c7.0 = "raising_collection unit_test_duplicate_error"
      and docs = "[[(''_id'', JStr ''duplicatedId'')]]" and ?r7.0 = unit_test_duplicate_error
      and ?x7.0 = "DataSourceError DuplicateError (DriverError unit_test_duplicate_error) [''duplicatedId'']"
      and ?c8.0 = "raising_collection unit_test_duplicate_error" and ?f8.0 = "JObj []"
      and ?r8.0 = unit_test_duplicate_error
      and ?x8.0 = "DataSourceError DuplicateError (DriverError unit_test_duplicate_error) [''duplicatedId'']"]
  by (simp add: unit_test_duplicate_error_def validation_error_def mocked_error_def
      raising_collection_def dquote_def throwDataSourceError_def getDuplicatedDocumentIds_def
      find_op_def count_def aggregate_def update_def insert_op_def remove_op_def guarded_def
      or_empty_def isBulkUpdate_def)

text \<open>
  C6, evaluated where it fails. The connective \<open>{or: [a]}\<close> over a \<open>Where\<close> instance
  parses to \<open>{$or: [parse(a)]}\<close>; nested one level down, in \<open>{and: [{or: [a]}]}\<close>,
  the inner call is made by \<open>map\<close> with \<open>this\<close> undefined and reading
  \<open>this.parse\<close> raises a \<open>TypeError\<close>, so the result is not
  \<open>{$and: [{$or: [parse(a)]}]}\<close>.
\<close>

theorem parse_nested_connective_fails:
  "parse ThisClass (PlainObject [(''or'', Some [leaf ''a'' isEq (JNum 1)])])
     = Inr (JObj [(''$or'', JArr [JObj [(''a'', JObj [(''$eq'', JNum 1)])]])]) \<and>
   parse ThisClass (PlainObject [(''and'',
       Some [PlainObject [(''or'', Some [leaf ''a'' isEq (JNum 1)])]])])
     = Inl TypeError \<and>
   parse ThisClass (PlainObject [(''and'',
       Some [PlainObject [(''or'', Some [leaf ''a'' isEq (JNum 1)])]])])
     \<noteq> Inr (JObj [(''$and'', JArr [JObj [(''$or'', JArr [JObj [(''a'', JObj [(''$eq'', JNum 1)])]])]])])"
  by simp

text \<open>
  C7. \<open>parse\<close> fails with \<open>UnsupportedOperatorError\<close> carrying the name of the
  unsupported token. A chain of clauses in which some operator has no entry in the
  operator map fails with the error carrying \<open>WhereOperator[operator]\<close> of the first
  such clause, so no unmapped operator is dropped; in particular a leaf with an unmapped
  operator fails naming it. An object that is no \<open>Where\<close> instance and whose first
  key is neither \<open>and\<close> nor \<open>or\<close> fails with the error carrying that key.
\<close>

theorem parse_unsupported:
  "((\<forall>(k, c) \<in> set pre. operatorMap (operator c) \<noteq> None) \<and> operatorMap (operator c0) = None
      \<longrightarrow> parse this (ChainWhere (pre @ (key, c0) # post))
            = Inl (UnsupportedOperatorError (WhereOperator_name (operator c0)))) \<and>
   (operatorMap op = None
      \<longrightarrow> parse this (leaf field op v) = Inl (UnsupportedOperatorError (WhereOperator_name op))) \<and>
   (first_key \<noteq> ''and'' \<and> first_key \<noteq> ''or''
      \<longrightarrow> parse this (PlainObject ((first_key, values) # others))
            = Inl (UnsupportedOperatorError (Some first_key)))"
  by (simp add: parse_chain_unmapped)

text \<open>A chain with \<open>isBetween\<close> in the middle, the leaf of the unit test whose operator
  is no member of the enumeration, and the object of the unit test.\<close>

theorem parse_unsupported_witness:
  "parse ThisClass (ChainWhere [(''name'', \<lparr>operator = isEq, clause_value = JStr ''John''\<rparr>),
       (''age'', \<lparr>operator = OtherOperator (Some ''isBetween''), clause_value = JNum 1\<rparr>),
       (''x'', \<lparr>operator = isGt, clause_value = JNum 1\<rparr>)])
     = Inl (UnsupportedOperatorError (Some ''isBetween'')) \<and>
   parse ThisClass (leaf ''name'' (OtherOperator None) (JStr ''unknown''))
     = Inl (UnsupportedOperatorError None) \<and>
   parse ThisClass (PlainObject [(''unknownOperator'', Some [PlainObject [(''field'', None)]])])
     = Inl (UnsupportedOperatorError (Some ''unknownOperator''))"
  using parse_unsupported [of "[(''name'', \<lparr>operator = isEq, clause_value = JStr ''John''\<rparr>)]"
      "\<lparr>operator = OtherOperator (Some ''isBetween''), clause_value = JNum 1\<rparr>" ThisClass
      "''age''" "[(''x'', \<lparr>operator = isGt, clause_value = JNum 1\<rparr>)]"
      "OtherOperator None" "''name''" "JStr ''unknown''" "''unknownOperator''"
      "Some [PlainObject [(''field'', None)]]" "[]"]
  by simp

text \<open>
  C8, as amended. For every operations array given to \<open>update\<close> in which some element
  has neither an \<open>updateOne\<close> nor an \<open>updateMany\<close> key, the call throws the generic
  \<open>DataSourceError\<close> that wraps \<open>BulkUpdateOperationsError\<close>, and makes no call on
  the driver: \<open>bulkWrite\<close> is not invoked.
\<close>

theorem bulk_guard_rejects_other_operations:
  "(\<exists>operation \<in> set operations.
       ''updateOne'' \<notin> fst ` set operation \<and> ''updateMany'' \<notin> fst ` set operation)
   \<longrightarrow> update coll (BulkOperations operations)
         = (Inl (DataSourceError OtherError BulkUpdateOperationsError []), [])"
proof
  assume "\<exists>operation \<in> set operations.
       ''updateOne'' \<notin> fst ` set operation \<and> ''updateMany'' \<notin> fst ` set operation"
  then obtain operation where op: "operation \<in> set operations"
    "''updateOne'' \<notin> fst ` set operation" "''updateMany'' \<notin> fst ` set operation"
    by blast
  have "\<not> truthy (obj_get operation ''updateOne'')" "\<not> truthy (obj_get operation ''updateMany'')"
    using op(2,3) by (simp_all add: obj_get_absent)
  then have "\<not> isBulkUpdate operations"
    using op(1) unfolding isBulkUpdate_all by blast
  then show "update coll (BulkOperations operations)
         = (Inl (DataSourceError OtherError BulkUpdateOperationsError []), [])"
    by (simp add: update_def throwDataSourceError_def)
qed

text \<open>An update followed by the operations of the unit test that are no updates.\<close>

theorem bulk_guard_rejects_other_operations_witness:
  "update quiet_collection (BulkOperations
       ([(''updateOne'', JObj [(''filter'', JObj []), (''update'', JObj [])])]
         # unit_test_other_operations))
     = (Inl (DataSourceError OtherError BulkUpdateOperationsError []), [])"
  using bulk_guard_rejects_other_operations [where coll = quiet_collection
      and operations = "[(''updateOne'', JObj [(''filter'', JObj []), (''update'', JObj [])])]
         # unit_test_other_operations"]
  by (simp add: unit_test_other_operations_def)

text \<open>
  What the caller catches is the \<open>DataSourceError\<close> made by \<open>createError\<close>, with
  \<open>BulkUpdateOperationsError\<close> as its \<open>error\<close>, not a
  \<open>BulkUpdateOperationsError\<close>.
\<close>

theorem bulk_guard_error_is_wrapped_counterexample:
  "fst (update quiet_collection (BulkOperations unit_test_other_operations))
     = Inl (DataSourceError OtherError BulkUpdateOperationsError []) \<and>
   fst (update quiet_collection (BulkOperations unit_test_other_operations))
     \<noteq> Inl BulkUpdateOperationsError"
  by (simp add: update_def unit_test_other_operations_def isBulkUpdate_def
      throwDataSourceError_def)

text \<open>
  C9. Of an object that is no \<open>Where\<close> instance \<open>parse\<close> reads the first key
  only: the result is that of the object with the first key alone, and when the first
  key is \<open>and\<close> or \<open>or\<close> and its operands parse, the result is the one connective
  over their filters; further keys are neither translated nor rejected.
\<close>

theorem parse_first_key_only:
  "parse this (PlainObject ((first_key, values) # others))
     = parse this (PlainObject [(first_key, values)]) \<and>
   ((first_key = ''and'' \<or> first_key = ''or'') \<and> values = Some operands
       \<and> map_parse operands = Inr filters
      \<longrightarrow> parse ThisClass (PlainObject ((first_key, values) # others))
            = Inr (JObj [(''$'' @ first_key, JArr filters)]))"
  by auto

text \<open>An object with the keys \<open>and\<close>, \<open>or\<close> and \<open>foo\<close>.\<close>

theorem parse_first_key_only_witness:
  "parse ThisClass (PlainObject [(''and'', Some [leaf ''a'' isEq (JNum 1)]),
       (''or'', Some [leaf ''b'' isEq (JNum 2)]), (''foo'', None)])
     = Inr (JObj [(''$and'', JArr [JObj [(''a'', JObj [(''$eq'', JNum 1)])]])])"
  using parse_first_key_only [of ThisClass "''and''" "Some [leaf ''a'' isEq (JNum 1)]"
      "[(''or'', Some [leaf ''b'' isEq (JNum 2)]), (''foo'', None)]"
      "[leaf ''a'' isEq (JNum 1)]" "[JObj [(''a'', JObj [(''$eq'', JNum 1)])]]"]
  by simp

text \<open>
  C10. \<open>isBulkUpdate\<close> is true of the empty array, so \<open>update([])\<close> passes the
  guard: it calls the driver's \<open>bulkWrite\<close> once, with the empty list, its result is
  shaped from what \<open>bulkWrite\<close> answers, and it throws
  \<open>BulkUpdateOperationsError\<close> neither bare nor wrapped.
\<close>

theorem empty_bulk_update_reaches_driver:
  "isBulkUpdate [] \<and>
   update coll (BulkOperations [])
     = (case coll_bulkWrite coll [] of
          Inl e \<Rightarrow> Inl (throwDataSourceError (DriverError e))
        | Inr r \<Rightarrow> Inr (bulk_stats r),
        [BulkWriteCall []]) \<and>
   fst (update coll (BulkOperations [])) \<noteq> Inl (throwDataSourceError BulkUpdateOperationsError) \<and>
   fst (update coll (BulkOperations [])) \<noteq> Inl BulkUpdateOperationsError \<and>
   snd (update coll (BulkOperations [])) = [BulkWriteCall []]"
  by (simp add: update_def isBulkUpdate_def guarded_def throwDataSourceError_def
      split: sum.splits)

end
